theory Spec2Isabelle
  imports Complex_Main
begin

section \<open>Feature alignment (featureAlignment2.py): data model\<close>

text \<open>
  Python exceptions that the modelled functions can raise. \<open>RRuntimeError\<close> is the
  exception the R bridge raises when the embedded R code calls \<open>stop\<close>.
\<close>

datatype error = KeyError | ValueError | TypeError | IndexError | RRuntimeError

text \<open>
  One row of a feature table. Only the columns the alignment code reads are named;
  float64 columns are modelled as real numbers (no NaN, no rounding).
\<close>

record feature =
  index :: int
  mz :: real
  z :: int
  RT :: real
  intensity :: real

text \<open>
  A pandas DataFrame is a list of rows, each with its row label.
  \<open>sort_values("intensity", ascending = False, ignore_index = True)\<close> orders the rows by
  descending intensity and relabels them 0, 1, 2, ... The order pandas gives to rows of
  equal intensity is not specified; the model keeps their input order.
\<close>

type_synonym frame = "(nat \<times> feature) list"

definition sort_values :: "feature list \<Rightarrow> feature list" where
  "sort_values rows = sort_key (\<lambda>f. - intensity f) rows"

definition relabel :: "feature list \<Rightarrow> frame" where
  "relabel rows = zip [0 ..< length rows] rows"

definition drop_label :: "nat \<Rightarrow> frame \<Rightarrow> frame" where
  "drop_label l pool = filter (\<lambda>(k, c). k \<noteq> l) pool"

section \<open>Zero-flooring of the SD arrays\<close>

text \<open>
  \<open>sd[sd == 0] = min(sd[sd > 0])\<close> on the contents of a numpy array: the right-hand
  side is evaluated first, and Python's \<open>min\<close> of an empty selection raises ValueError.
\<close>

definition floorZeros :: "real list \<Rightarrow> error + real list" where
  "floorZeros sd =
     (case filter (\<lambda>x. 0 < x) sd of
        [] \<Rightarrow> Inl ValueError
      | p # ps \<Rightarrow> Inr (map (\<lambda>x. if x = 0 then fold min ps p else x) sd))"

text \<open>
  The floored array in the words of the specification: every zero entry is replaced by
  the least positive entry of the array.
\<close>

definition floored :: "real list \<Rightarrow> real list" where
  "floored sd = map (\<lambda>x. if x = 0 then Min {y \<in> set sd. 0 < y} else x) sd"

text \<open>
  The SD arguments are a Python float, a Python list or a numpy array. A numpy array is an
  object of the store, named by its address; the store maps every address to the contents
  of the array that lives there.
\<close>

type_synonym addr = nat
type_synonym store = "addr \<Rightarrow> real list"

datatype sdarg = PyFloat real | PyList "real list" | NdArray addr

text \<open>What the local name \<open>rtSd\<close> (or \<open>mzSd\<close>) is bound to after the flooring.\<close>

datatype sdref = Fresh "real list" | Shared addr

fun deref :: "store \<Rightarrow> sdref \<Rightarrow> real list" where
  "deref h (Fresh xs) = xs"
| "deref h (Shared a) = h a"

text \<open>
  Lines 190-195 and 309-314: a scalar is expanded by \<open>np.repeat\<close> into a new array of
  \<open>n\<close> copies; a list or an array is kept as it is. The flooring then assigns into the
  object the name is bound to. For a list, \<open>sd > 0\<close> raises TypeError.
\<close>

fun floorSd :: "store \<Rightarrow> nat \<Rightarrow> sdarg \<Rightarrow> store \<times> (error + sdref)" where
  "floorSd h n (PyFloat v) =
     (case floorZeros (replicate n v) of
        Inl e \<Rightarrow> (h, Inl e)
      | Inr ys \<Rightarrow> (h, Inr (Fresh ys)))"
| "floorSd h n (PyList xs) = (h, Inl TypeError)"
| "floorSd h n (NdArray a) =
     (case floorZeros (h a) of
        Inl e \<Rightarrow> (h, Inl e)
      | Inr ys \<Rightarrow> (h(a := ys), Inr (Shared a)))"

text \<open>
  The effect of the two floorings on the store, in words: the flooring of an argument
  returns for a positive scalar (and a reference table that is not empty) and for an
  array with a positive entry; it raises for a list, for any other scalar and for an
  array without positive entry. The flooring of \<open>rtSd\<close> comes first, and \<open>mzSd\<close> is
  floored only when that of \<open>rtSd\<close> has returned.
\<close>

definition flooringOk :: "store \<Rightarrow> nat \<Rightarrow> sdarg \<Rightarrow> bool" where
  "flooringOk h n sd =
     (case sd of
        PyFloat v \<Rightarrow> 0 < v \<and> 0 < n
      | PyList xs \<Rightarrow> False
      | NdArray a \<Rightarrow> (\<exists>x\<in>set (h a). 0 < x))"

definition flooredStore :: "store \<Rightarrow> sdarg \<Rightarrow> store" where
  "flooredStore h sd = (case sd of NdArray a \<Rightarrow> h(a := floored (h a)) | _ \<Rightarrow> h)"

definition flooringEffect :: "store \<Rightarrow> nat \<Rightarrow> sdarg \<Rightarrow> sdarg \<Rightarrow> store" where
  "flooringEffect h n rtSd mzSd =
     (if flooringOk h n rtSd then
        (if flooringOk h n mzSd then flooredStore (flooredStore h rtSd) mzSd else flooredStore h rtSd)
      else h)"

text \<open>
  The parameter dictionary maps names to strings; \<open>float(params[k])\<close> raises KeyError for
  a missing key and ValueError for a string that is not a number. Python's \<open>float\<close> is the
  parameter \<open>pf\<close> of the model.
\<close>

type_synonym params = "string \<rightharpoonup> string"

definition float_param :: "(string \<Rightarrow> real option) \<Rightarrow> params \<Rightarrow> string \<Rightarrow> error + real" where
  "float_param pf ps k =
     (case ps k of
        None \<Rightarrow> Inl KeyError
      | Some s \<Rightarrow> (case pf s of None \<Rightarrow> Inl ValueError | Some v \<Rightarrow> Inr v))"

section \<open>matchFeatures\<close>

text \<open>
  The tolerance test of line 328 for reference row \<open>r\<close> and comparison row \<open>c\<close>. For a
  reference m/z of 0 the ppm deviation is infinite or NaN in numpy and the comparison is
  False; HOL's \<open>x / 0 = 0\<close> would accept it, so the case is written out.
\<close>

definition inTol :: "real \<Rightarrow> real \<Rightarrow> feature \<Rightarrow> feature \<Rightarrow> bool" where
  "inTol rtTol mzTol r c \<longleftrightarrow>
     \<bar>RT c - RT r\<bar> \<le> rtTol \<and> mz r \<noteq> 0 \<and> \<bar>(mz c - mz r) / mz r * 1000000\<bar> \<le> mzTol"

text \<open>
  Lines 328-363, the body of the loop for one reference row: the label and row of the
  comparison feature that is accepted, if any. The pool is in descending intensity, so
  the first candidate is the most intense one.
\<close>

definition matchRow :: "real \<Rightarrow> real \<Rightarrow> feature \<Rightarrow> frame \<Rightarrow> (nat \<times> feature) option" where
  "matchRow rtTol mzTol r pool =
     (case filter (\<lambda>(l, c). inTol rtTol mzTol r c) pool of
        [] \<Rightarrow> None
      | (l0, c0) # _ \<Rightarrow>
          if z r = 0 then Some (l0, c0)
          else if z c0 = 0 then Some (l0, c0)
          else (case filter (\<lambda>(l, c). inTol rtTol mzTol r c \<and> z c = z r) pool of
                  [] \<Rightarrow> None
                | (l1, c1) # _ \<Rightarrow> Some (l1, c1)))"

text \<open>
  One entry of the dictionary \<open>d\<close>: the reference row and the comparison row, together
  with the position of the reference row and the label of the comparison row they were
  read from.
\<close>

record matched =
  ref_pos :: nat
  ref_row :: feature
  comp_label :: nat
  comp_row :: feature

text \<open>
  Lines 322-365: the loop over the reference rows. \<open>rtTol[i]\<close> raises IndexError when the
  tolerance array is shorter than the reference table. An accepted comparison row is
  dropped from the pool.
\<close>

fun matchLoop :: "real list \<Rightarrow> real list \<Rightarrow> frame \<Rightarrow> nat \<Rightarrow> feature list \<Rightarrow> error + matched list" where
  "matchLoop rtTol mzTol pool i [] = Inr []"
| "matchLoop rtTol mzTol pool i (r # rs) =
     (if i < length rtTol \<and> i < length mzTol then
        (case matchRow (rtTol ! i) (mzTol ! i) r pool of
           None \<Rightarrow> matchLoop rtTol mzTol pool (Suc i) rs
         | Some (l, c) \<Rightarrow>
             (case matchLoop rtTol mzTol (drop_label l pool) (Suc i) rs of
                Inl e \<Rightarrow> Inl e
              | Inr d \<Rightarrow> Inr (\<lparr>ref_pos = i, ref_row = r, comp_label = l, comp_row = c\<rparr> # d)))
      else Inl IndexError)"

text \<open>
  matchFeatures up to the dictionary \<open>d\<close>. The store is returned with the result, also
  when an exception is raised: what the flooring has written stays written.
\<close>

definition matchEntries ::
  "(string \<Rightarrow> real option) \<Rightarrow> store \<Rightarrow> feature list \<Rightarrow> feature list \<Rightarrow> sdarg \<Rightarrow> sdarg \<Rightarrow> params
     \<Rightarrow> store \<times> (error + matched list)" where
  "matchEntries pf h ref cmp rtSd mzSd ps =
     (let ref' = sort_values ref;
          comp' = relabel (sort_values cmp);
          n = length ref'
      in case floorSd h n rtSd of
           (h1, Inl e) \<Rightarrow> (h1, Inl e)
         | (h1, Inr rtRef) \<Rightarrow>
             (case floorSd h1 n mzSd of
                (h2, Inl e) \<Rightarrow> (h2, Inl e)
              | (h2, Inr mzRef) \<Rightarrow>
                  (case float_param pf ps ''sd_width'' of
                     Inl e \<Rightarrow> (h2, Inl e)
                   | Inr sdWidth \<Rightarrow>
                       (h2, matchLoop (map (\<lambda>s. s * sdWidth) (deref h2 rtRef))
                                      (map (\<lambda>s. s * sdWidth) (deref h2 mzRef))
                                      comp' 0 ref'))))"

text \<open>The returned DataFrame: one row per entry, the reference columns and the comparison columns.\<close>

definition matchFeatures ::
  "(string \<Rightarrow> real option) \<Rightarrow> store \<Rightarrow> feature list \<Rightarrow> feature list \<Rightarrow> sdarg \<Rightarrow> sdarg \<Rightarrow> params
     \<Rightarrow> store \<times> (error + (feature \<times> feature) list)" where
  "matchFeatures pf h ref cmp rtSd mzSd ps =
     (case matchEntries pf h ref cmp rtSd mzSd ps of
        (h', Inl e) \<Rightarrow> (h', Inl e)
      | (h', Inr d) \<Rightarrow> (h', Inr (map (\<lambda>m. (ref_row m, comp_row m)) d)))"

section \<open>findMatchedSubset\<close>

text \<open>One row of \<open>subDf\<close> (lines 225-226).\<close>

record subrow =
  refMz :: real
  refRt :: real
  refIntensity :: real
  compMz :: real
  compRt :: real
  compIntensity :: real

text \<open>
  Lines 211-218: the candidates of reference row \<open>r\<close>; the charge is tested only when
  the reference charge is not 0. The first candidate is the most intense one.
\<close>

definition subsetRow :: "real \<Rightarrow> real \<Rightarrow> feature \<Rightarrow> frame \<Rightarrow> (nat \<times> feature) option" where
  "subsetRow rtTol mzTol r pool =
     (case (if z r = 0 then filter (\<lambda>(l, c). inTol rtTol mzTol r c) pool
            else filter (\<lambda>(l, c). inTol rtTol mzTol r c \<and> z c = z r) pool) of
        [] \<Rightarrow> None
      | lc # _ \<Rightarrow> Some lc)"

text \<open>Lines 204-227: the loop; nothing is dropped from the pool.\<close>

fun subsetLoop :: "real list \<Rightarrow> real list \<Rightarrow> frame \<Rightarrow> nat \<Rightarrow> feature list \<Rightarrow> error + subrow list" where
  "subsetLoop rtTol mzTol pool i [] = Inr []"
| "subsetLoop rtTol mzTol pool i (r # rs) =
     (if i < length rtTol \<and> i < length mzTol then
        (case subsetLoop rtTol mzTol pool (Suc i) rs of
           Inl e \<Rightarrow> Inl e
         | Inr d \<Rightarrow>
             (case subsetRow (rtTol ! i) (mzTol ! i) r pool of
                None \<Rightarrow> Inr d
              | Some (l, c) \<Rightarrow>
                  Inr (\<lparr>refMz = mz r, refRt = RT r, refIntensity = intensity r,
                        compMz = mz c, compRt = RT c, compIntensity = intensity c\<rparr> # d)))
      else Inl IndexError)"

definition findMatchedSubset ::
  "(string \<Rightarrow> real option) \<Rightarrow> store \<Rightarrow> feature list \<Rightarrow> feature list \<Rightarrow> sdarg \<Rightarrow> sdarg \<Rightarrow> params
     \<Rightarrow> store \<times> (error + subrow list)" where
  "findMatchedSubset pf h ref cmp rtSd mzSd ps =
     (let ref' = sort_values ref;
          comp' = relabel (sort_values cmp);
          n = length ref'
      in case floorSd h n rtSd of
           (h1, Inl e) \<Rightarrow> (h1, Inl e)
         | (h1, Inr rtRef) \<Rightarrow>
             (case floorSd h1 n mzSd of
                (h2, Inl e) \<Rightarrow> (h2, Inl e)
              | (h2, Inr mzRef) \<Rightarrow>
                  (case float_param pf ps ''sd_width'' of
                     Inl e \<Rightarrow> (h2, Inl e)
                   | Inr sdWidth \<Rightarrow>
                       (h2, subsetLoop (map (\<lambda>s. s * sdWidth) (deref h2 rtRef))
                                       (map (\<lambda>s. s * sdWidth) (deref h2 mzRef))
                                       comp' 0 ref'))))"

section \<open>The numeric libraries\<close>

text \<open>
  numpy, the R bridge and R's \<open>loess\<close> are not part of the repository; the functions
  of theirs that the calibration calls are parameters of the model. \<open>'m\<close> is the type of
  a fitted LOESS model.
  \<^item> \<open>np_percentile xs q\<close>, \<open>np_median xs\<close>, \<open>np_std xs\<close> (with \<open>ddof = 1\<close>);
  \<^item> \<open>np_normal k loc\<close>: the value of the \<open>k\<close>-th call of \<open>np.random.normal\<close>, called
    with \<open>loc\<close> as its only argument (a single sample, not an array);
  \<^item> \<open>r_loess x y\<close>: R's \<open>loess\<close> with the span search of \<open>loess.as\<close>, which may stop;
    \<open>r_fitted m\<close> its fitted values, \<open>r_predict m xs\<close> the prediction at new points;
  \<^item> \<open>scalar_vector\<close>: whether \<open>FloatVector\<close> turns a bare Python float into a vector of
    length 1 (otherwise it raises TypeError);
  \<^item> \<open>pyfloat\<close>, \<open>pyint\<close>: Python's \<open>float\<close> and \<open>int\<close> on strings.
\<close>

record 'm lib =
  np_percentile :: "real list \<Rightarrow> real \<Rightarrow> error + real"
  np_median :: "real list \<Rightarrow> real"
  np_std :: "real list \<Rightarrow> real"
  np_normal :: "nat \<Rightarrow> real \<Rightarrow> real"
  r_loess :: "real list \<Rightarrow> real list \<Rightarrow> error + 'm"
  r_fitted :: "'m \<Rightarrow> real list"
  r_predict :: "'m \<Rightarrow> real list \<Rightarrow> real list"
  scalar_vector :: bool
  pyfloat :: "string \<Rightarrow> real option"
  pyint :: "string \<Rightarrow> int option"

text \<open>
  The calibration creates arrays and draws random numbers: its state is the store, the
  next unused address and the number of random draws made so far. A computation returns
  the new state with an exception or a value.
\<close>

record heap =
  cells :: store
  next_addr :: addr
  draws :: nat

type_synonym 'a prog = "heap \<Rightarrow> heap \<times> (error + 'a)"

definition ret :: "'a \<Rightarrow> 'a prog" where
  "ret x s = (s, Inr x)"

definition raise :: "error \<Rightarrow> 'a prog" where
  "raise e s = (s, Inl e)"

definition lift :: "error + 'a \<Rightarrow> 'a prog" where
  "lift v s = (s, v)"

definition bindH :: "'a prog \<Rightarrow> ('a \<Rightarrow> 'b prog) \<Rightarrow> 'b prog" where
  "bindH m f s = (case m s of (s', Inl e) \<Rightarrow> (s', Inl e) | (s', Inr x) \<Rightarrow> f x s')"

definition on_cells :: "(store \<Rightarrow> store \<times> (error + 'a)) \<Rightarrow> 'a prog" where
  "on_cells f s = (case f (cells s) of (h, v) \<Rightarrow> (s\<lparr>cells := h\<rparr>, v))"

definition new_array :: "real list \<Rightarrow> sdarg prog" where
  "new_array xs s =
     (s\<lparr>cells := (cells s)(next_addr s := xs), next_addr := Suc (next_addr s)\<rparr>,
      Inr (NdArray (next_addr s)))"

section \<open>localCalibration\<close>

text \<open>
  A shift sample is a pandas Series, or, on the jitter path, the single Python float
  \<open>1e-6 * np.random.normal(len(refRt))\<close>.
\<close>

datatype shifts = Series "real list" | Scalar real

definition jitter :: "'m lib \<Rightarrow> nat \<Rightarrow> shifts prog" where
  "jitter L n s =
     (s\<lparr>draws := Suc (draws s)\<rparr>, Inr (Scalar (1 / 1000000 * np_normal L (draws s) (real n))))"

definition rtShiftsOf :: "'m lib \<Rightarrow> real list \<Rightarrow> real list \<Rightarrow> shifts prog" where
  "rtShiftsOf L refRts compRts =
     (if refRts = compRts then jitter L (length refRts)
      else ret (Series (map2 (\<lambda>c r. c - r) compRts refRts)))"

definition mzShiftsOf :: "'m lib \<Rightarrow> real list \<Rightarrow> real list \<Rightarrow> shifts prog" where
  "mzShiftsOf L refMzs compMzs =
     (if refMzs = compMzs then jitter L (length refMzs)
      else ret (Series (map2 (\<lambda>c r. (c - r) / r * 1000000) compMzs refMzs)))"

fun floatVector :: "'m lib \<Rightarrow> shifts \<Rightarrow> error + real list" where
  "floatVector L (Series xs) = Inr xs"
| "floatVector L (Scalar v) = (if scalar_vector L then Inr [v] else Inl TypeError)"

fun squared :: "shifts \<Rightarrow> shifts" where
  "squared (Series xs) = Series (map (\<lambda>x. x * x) xs)"
| "squared (Scalar v) = Scalar (v * v)"

text \<open>
  Lines 105-180, \<open>loess.as\<close> for a one-column \<open>x\<close>: the checks that call \<open>stop\<close>, then
  the fit.
\<close>

definition loess_as :: "'m lib \<Rightarrow> real list \<Rightarrow> real list \<Rightarrow> error + 'm" where
  "loess_as L x y =
     (if length x \<noteq> length y then Inl RRuntimeError
      else if length y < 3 then Inl RRuntimeError
      else r_loess L x y)"

definition rLoess :: "'m lib \<Rightarrow> real list \<Rightarrow> shifts \<Rightarrow> 'm prog" where
  "rLoess L x y = lift (case floatVector L y of Inl e \<Rightarrow> Inl e | Inr ys \<Rightarrow> loess_as L x ys)"

text \<open>
  Lines 255-256 and 293-294: the positions of the shifts between the 10th and the 90th
  percentile. For a single float \<open>np.where\<close> gives position 0 or nothing.
\<close>

fun shiftValues :: "shifts \<Rightarrow> real list" where
  "shiftValues (Series xs) = xs"
| "shiftValues (Scalar v) = [v]"

definition trimInd :: "'m lib \<Rightarrow> shifts \<Rightarrow> nat list prog" where
  "trimInd L sh =
     bindH (lift (np_percentile L (shiftValues sh) 10)) (\<lambda>p10.
     bindH (lift (np_percentile L (shiftValues sh) 90)) (\<lambda>p90.
     ret (filter (\<lambda>i. p10 \<le> shiftValues sh ! i \<and> shiftValues sh ! i \<le> p90)
            [0 ..< length (shiftValues sh)])))"

text \<open>\<open>rtShifts[ind]\<close>: a Python float cannot be subscripted.\<close>

fun takeInd :: "shifts \<Rightarrow> nat list \<Rightarrow> shifts prog" where
  "takeInd (Series xs) ind = ret (Series (map (\<lambda>i. xs ! i) ind))"
| "takeInd (Scalar v) ind = raise TypeError"

text \<open>Elementwise arithmetic of a Series with an array needs equal lengths.\<close>

definition zipWith :: "(real \<Rightarrow> real \<Rightarrow> real) \<Rightarrow> real list \<Rightarrow> real list \<Rightarrow> real list prog" where
  "zipWith f xs ys = (if length xs = length ys then ret (map2 f xs ys) else raise ValueError)"

definition sdCurve :: "'m lib \<Rightarrow> 'm \<Rightarrow> real list \<Rightarrow> real list" where
  "sdCurve L m xs = map (\<lambda>v. sqrt (max 0 v)) (r_predict L m xs)"

text \<open>
  Lines 250-258 and 288-296: the new RT tolerance, from the trimmed squared RT shifts.
\<close>

definition rtSdOf :: "'m lib \<Rightarrow> feature list \<Rightarrow> real list \<Rightarrow> real list \<Rightarrow> sdarg prog" where
  "rtSdOf L ref refRts compRts =
     bindH (rtShiftsOf L refRts compRts) (\<lambda>rtShifts.
     bindH (trimInd L rtShifts) (\<lambda>ind.
     bindH (takeInd rtShifts ind) (\<lambda>trimmed.
     bindH (rLoess L (map (\<lambda>i. compRts ! i) ind) (squared trimmed)) (\<lambda>modRtSd.
     new_array (sdCurve L modRtSd (map RT ref))))))"

text \<open>Lines 260-268 and 280-286: the new m/z tolerance, from all squared m/z shifts.\<close>

definition mzSdOf :: "'m lib \<Rightarrow> feature list \<Rightarrow> real list \<Rightarrow> real list \<Rightarrow> sdarg prog" where
  "mzSdOf L ref refMzs compMzs =
     bindH (mzShiftsOf L refMzs compMzs) (\<lambda>mzShifts.
     bindH (rLoess L compMzs (squared mzShifts)) (\<lambda>modMzSd.
     new_array (sdCurve L modMzSd (map mz ref))))"

text \<open>
  localCalibration. \<open>subDf["refRt"]\<close> raises KeyError when no feature was matched (the
  frame then has no columns). A \<open>type\<close> other than "RT" and "mz" returns the arguments.
  A prediction of exactly -1e6 ppm would divide by zero in line 299 (an infinite m/z in
  numpy); the model has no infinities.
\<close>

definition localCalibration ::
  "'m lib \<Rightarrow> feature list \<Rightarrow> feature list \<Rightarrow> sdarg \<Rightarrow> sdarg \<Rightarrow> params \<Rightarrow> string
     \<Rightarrow> (feature list \<times> feature list \<times> sdarg \<times> sdarg) prog" where
  "localCalibration L ref cmp rtSd mzSd ps ty =
     bindH (on_cells (\<lambda>h. findMatchedSubset (pyfloat L) h ref cmp rtSd mzSd ps)) (\<lambda>subDf.
     if subDf = [] then raise KeyError
     else
       let refRts = map refRt subDf; compRts = map compRt subDf;
           refMzs = map refMz subDf; compMzs = map compMz subDf
       in
       if ty = ''RT'' then
         bindH (rtShiftsOf L refRts compRts) (\<lambda>rtShifts.
         bindH (rLoess L compRts rtShifts) (\<lambda>model.
         bindH (zipWith (\<lambda>c f. c - f) compRts (r_fitted L model)) (\<lambda>compRts'.
         bindH (rtSdOf L ref refRts compRts') (\<lambda>rtSd'.
         bindH (mzSdOf L ref refMzs compMzs) (\<lambda>mzSd'.
         bindH (zipWith (\<lambda>c f. c - f) (map RT cmp) (r_predict L model (map RT cmp))) (\<lambda>newRt.
         ret (ref, map2 (\<lambda>c v. c\<lparr>RT := v\<rparr>) cmp newRt, rtSd', mzSd')))))))
       else if ty = ''mz'' then
         bindH (mzShiftsOf L refMzs compMzs) (\<lambda>mzShifts.
         bindH (rLoess L compMzs mzShifts) (\<lambda>model.
         bindH (zipWith (\<lambda>c f. c * (1 + f / 1000000)) compMzs (r_fitted L model)) (\<lambda>compMzs'.
         bindH (mzSdOf L ref refMzs compMzs') (\<lambda>mzSd'.
         bindH (rtSdOf L ref refRts compRts) (\<lambda>rtSd'.
         bindH (zipWith (\<lambda>c f. c / (1 + f / 1000000)) (map mz cmp) (r_predict L model (map mz cmp))) (\<lambda>newMz.
         ret (ref, map2 (\<lambda>c v. c\<lparr>mz := v\<rparr>) cmp newMz, rtSd', mzSd')))))))
       else ret (ref, cmp, rtSd, mzSd))"

section \<open>globalCalibration\<close>

text \<open>
  Line 67, \<open>round(0.05 * n)\<close>: Python rounds a half to the even neighbour. The float
  product \<open>0.05 * n\<close> is the double nearest to \<open>n / 20\<close> up to a relative error of
  \<open>2^-54\<close>, so it is exactly a half whenever \<open>n / 20\<close> is, and on the same side of every
  half otherwise.
\<close>

definition nPeaksOf :: "nat \<Rightarrow> nat" where
  "nPeaksOf n =
     (let q = n div 20; r = n mod 20
      in if r < 10 then q else if 10 < r then Suc q else if even q then q else Suc q)"

text \<open>Lines 74-83: the comparison rows inside the m/z window of reference row \<open>r\<close>.\<close>

definition globalCandidates :: "real \<Rightarrow> feature \<Rightarrow> frame \<Rightarrow> frame" where
  "globalCandidates mzTol r pool =
     (let lL = mz r - mz r * mzTol / 1000000;
          uL = mz r + mz r * mzTol / 1000000
      in if z r = 0 then filter (\<lambda>(l, c). lL \<le> mz c \<and> mz c < uL) pool
         else filter (\<lambda>(l, c). lL \<le> mz c \<and> mz c < uL \<and> z c = z r) pool)"

text \<open>
  Lines 70-91: the scan. The reference table has the row labels 0, 1, 2, ... (it was
  sorted with \<open>ignore_index\<close>), and \<open>ref["z"][i]\<close> raises KeyError for a label that is
  not in the table. \<open>i\<close> grows in every round, \<open>j\<close> only when a feature was matched.
\<close>

function globalLoop ::
  "real \<Rightarrow> feature list \<Rightarrow> nat \<Rightarrow> frame \<Rightarrow> nat \<Rightarrow> nat \<Rightarrow> real list \<Rightarrow> real list
     \<Rightarrow> error + real list \<times> real list" where
  "globalLoop mzTol ref nPeaks pool i j rtShifts mzShifts =
     (if j \<le> nPeaks then
        (if i < length ref then
           (case globalCandidates mzTol (ref ! i) pool of
              [] \<Rightarrow> globalLoop mzTol ref nPeaks pool (Suc i) j rtShifts mzShifts
            | (l, c) # _ \<Rightarrow>
                globalLoop mzTol ref nPeaks (drop_label l pool) (Suc i) (Suc j)
                  (rtShifts @ [RT c - RT (ref ! i)])
                  (mzShifts @ [(mz c - mz (ref ! i)) / mz (ref ! i) * 1000000]))
         else Inl KeyError)
      else Inr (rtShifts, mzShifts))"
  by pat_completeness auto
termination
  by (relation "measure (\<lambda>(mzTol, ref, nPeaks, pool, i, j, rtShifts, mzShifts). length ref - i)") auto

declare globalLoop.simps [simp del]

definition bindE :: "error + 'a \<Rightarrow> ('a \<Rightarrow> error + 'b) \<Rightarrow> error + 'b" where
  "bindE v f = (case v of Inl e \<Rightarrow> Inl e | Inr x \<Rightarrow> f x)"

text \<open>Lines 93-99: both samples are cut to their 10th-90th percentile range.\<close>

definition trimmed :: "'m lib \<Rightarrow> real list \<Rightarrow> error + real list" where
  "trimmed L xs =
     bindE (np_percentile L xs 10) (\<lambda>p10.
     bindE (np_percentile L xs 90) (\<lambda>p90.
     Inr (filter (\<lambda>x. p10 \<le> x \<and> x \<le> p90) xs)))"

definition globalCalibration ::
  "'m lib \<Rightarrow> feature list \<Rightarrow> frame \<Rightarrow> real \<Rightarrow> error + real list \<times> real list" where
  "globalCalibration L ref pool mzTol =
     bindE (globalLoop mzTol ref (nPeaksOf (length ref)) pool 0 1 [] []) (\<lambda>(rtShifts, mzShifts).
     bindE (trimmed L rtShifts) (\<lambda>rtShifts'.
     bindE (trimmed L mzShifts) (\<lambda>mzShifts'.
     Inr (rtShifts', mzShifts'))))"

section \<open>calibrateFeatures\<close>

definition int_param :: "(string \<Rightarrow> int option) \<Rightarrow> params \<Rightarrow> string \<Rightarrow> error + int" where
  "int_param pint ps k =
     (case ps k of
        None \<Rightarrow> Inl KeyError
      | Some s \<Rightarrow> (case pint s of None \<Rightarrow> Inl ValueError | Some v \<Rightarrow> Inr v))"

text \<open>
  The progress lines print \<open>np.amin\<close> and \<open>np.amax\<close> of an SD array, which raise
  ValueError for an empty one.
\<close>

definition print_range :: "sdarg \<Rightarrow> unit prog" where
  "print_range sd s =
     (case sd of
        PyFloat v \<Rightarrow> (s, Inr ())
      | PyList xs \<Rightarrow> (s, if xs = [] then Inl ValueError else Inr ())
      | NdArray a \<Rightarrow> (s, if cells s a = [] then Inl ValueError else Inr ()))"

text \<open>
  Lines 22-35: the parameters (read from the global dictionary \<open>params\<close>; the argument
  \<open>parameters\<close> is not used), the sorting, the global calibration and the first SDs.
  A median m/z shift of exactly -1e6 ppm would divide by zero (infinite m/z in numpy).
\<close>

definition calibrationStart ::
  "'m lib \<Rightarrow> params \<Rightarrow> feature list \<Rightarrow> feature list
     \<Rightarrow> (feature list \<times> feature list \<times> sdarg \<times> sdarg) prog" where
  "calibrationStart L ps ref cmp =
     bindH (lift (int_param (pyint L) ps ''tol_initial'')) (\<lambda>initMzTol.
     bindH (lift (int_param (pyint L) ps ''sd_width'')) (\<lambda>sdWidth.
     bindH (lift (globalCalibration L (sort_values ref) (relabel (sort_values cmp)) (real_of_int initMzTol)))
       (\<lambda>(rtShifts, mzShifts).
     ret (sort_values ref,
          map (\<lambda>c. c\<lparr>RT := RT c - np_median L rtShifts,
                    mz := mz c / (1 + np_median L mzShifts / 1000000)\<rparr>) (sort_values cmp),
          PyFloat (max (1 / 1000) (np_std L rtShifts)),
          PyFloat (max (1 / 1000) (np_std L mzShifts))))))"

text \<open>Lines 38-63: the four calls of localCalibration, each followed by its progress lines.\<close>

definition calibrateFeatures ::
  "'m lib \<Rightarrow> params \<Rightarrow> feature list \<Rightarrow> feature list \<Rightarrow> (feature list \<times> sdarg \<times> sdarg) prog" where
  "calibrateFeatures L ps ref cmp =
     bindH (calibrationStart L ps ref cmp) (\<lambda>(ref0, comp0, rtSd0, mzSd0).
     bindH (localCalibration L ref0 comp0 rtSd0 mzSd0 ps ''RT'') (\<lambda>(ref1, comp1, rtSd1, mzSd1).
     bindH (print_range rtSd1) (\<lambda>_.
     bindH (localCalibration L ref1 comp1 rtSd1 mzSd1 ps ''RT'') (\<lambda>(ref2, comp2, rtSd2, mzSd2).
     bindH (print_range rtSd2) (\<lambda>_.
     bindH (localCalibration L ref2 comp2 rtSd2 mzSd2 ps ''mz'') (\<lambda>(ref3, comp3, rtSd3, mzSd3).
     bindH (print_range mzSd3) (\<lambda>_.
     bindH (localCalibration L ref3 comp3 rtSd3 mzSd3 ps ''mz'') (\<lambda>(ref4, comp4, rtSd4, mzSd4).
     bindH (print_range mzSd4) (\<lambda>_.
     ret (comp4, rtSd4, mzSd4))))))))))"



section \<open>rescueFeatures\<close>

text \<open>
  rescueFeatures works on numpy structured arrays (\<open>ref\<close>, \<open>comp\<close>), Python lists of
  row numbers (\<open>refInd\<close>, \<open>compInd\<close>) and numpy arrays (\<open>rtSd\<close>, \<open>mzSd\<close>). What it prints
  is part of the result.
\<close>

datatype message =
  Unaligned int
| IntensityCriterion real
| RatioCriterion nat
| RtWithinSd string
| RtWithinSeconds string
| MzWithinSd string
| MzWithinSeconds string
| WarnToleranceUnit
| RescueSkipped
| Rescued nat

text \<open>\<open>arr[idx]\<close> for row numbers \<open>idx\<close>: IndexError for a number outside the array.\<close>

definition take_rows :: "'a list \<Rightarrow> nat list \<Rightarrow> error + 'a list" where
  "take_rows arr idx =
     (if \<forall>i\<in>set idx. i < length arr then Inr (map (\<lambda>i. arr ! i) idx) else Inl IndexError)"

text \<open>\<open>np.setdiff1d(range(n), ind)\<close>: the numbers below \<open>n\<close> that are not in \<open>ind\<close>, ascending.\<close>

definition setdiff_range :: "nat \<Rightarrow> nat list \<Rightarrow> nat list" where
  "setdiff_range n ind = filter (\<lambda>i. i \<notin> set ind) [0 ..< n]"

text \<open>
  \<open>log2(a) - log2(b)\<close> elementwise; arrays of different lengths are broadcast only when
  one of them has length 1, otherwise ValueError.
\<close>

definition log_ratios :: "real list \<Rightarrow> real list \<Rightarrow> error + real list" where
  "log_ratios xs ys =
     (if length xs = length ys then Inr (map2 (\<lambda>x y. log 2 x - log 2 y) xs ys)
      else if length ys = 1 then Inr (map (\<lambda>x. log 2 x - log 2 (hd ys)) xs)
      else if length xs = 1 then Inr (map (\<lambda>y. log 2 (hd xs) - log 2 y) ys)
      else Inl ValueError)"

record rescue_env =
  uRefInd :: "nat list"
  uRtSd :: "real list"
  uMzSd :: "real list"
  uRef :: "feature list"
  uCompInd :: "nat list"
  uComp :: "feature list"
  intLevel :: real
  lRatio :: real
  uRatio :: real

text \<open>
  Lines 390-409, up to the first criterion line. For an empty table \<open>np.setdiff1d\<close>
  gives an empty float array, which cannot index an array (IndexError). For an empty
  \<open>compInd\<close> the median is NaN, which \<open>%d\<close> cannot print (ValueError).
\<close>

definition rescueCriteria ::
  "'m lib \<Rightarrow> feature list \<Rightarrow> feature list \<Rightarrow> nat list \<Rightarrow> nat list \<Rightarrow> real list \<Rightarrow> real list
     \<Rightarrow> error + rescue_env" where
  "rescueCriteria L ref cmp refInd compInd rtSd mzSd =
     (if ref = [] then Inl IndexError
      else
        bindE (take_rows rtSd (setdiff_range (length ref) refInd)) (\<lambda>rtSd'.
        bindE (take_rows mzSd (setdiff_range (length ref) refInd)) (\<lambda>mzSd'.
        bindE (take_rows ref (setdiff_range (length ref) refInd)) (\<lambda>uRef'.
        if cmp = [] then Inl IndexError
        else
          bindE (take_rows cmp (setdiff_range (length cmp) compInd)) (\<lambda>uComp'.
          bindE (take_rows (map intensity cmp) compInd) (\<lambda>alignedComp.
          bindE (take_rows (map intensity ref) refInd) (\<lambda>alignedRef.
          bindE (log_ratios alignedRef alignedComp) (\<lambda>ratioAligned.
          bindE (np_percentile L ratioAligned (5 / 2)) (\<lambda>lR.
          bindE (np_percentile L ratioAligned (195 / 2)) (\<lambda>uR.
          if compInd = [] then Inl ValueError
          else Inr \<lparr>uRefInd = setdiff_range (length ref) refInd, uRtSd = rtSd', uMzSd = mzSd',
                     uRef = uRef', uCompInd = setdiff_range (length cmp) compInd, uComp = uComp',
                     intLevel = np_median L alignedComp, lRatio = lR, uRatio = uR\<rparr>))))))))))"

text \<open>
  Lines 435-439: the positions in \<open>uComp\<close> that meet the criteria for the \<open>i\<close>-th unaligned
  reference feature. A logarithm of a non-positive intensity and a ppm deviation from an
  m/z of 0 are infinite or NaN in numpy, and the comparisons with them are False.
\<close>

definition rescueCandidates :: "rescue_env \<Rightarrow> real list \<Rightarrow> real list \<Rightarrow> nat \<Rightarrow> nat list" where
  "rescueCandidates E rtTol mzTol i =
     filter (\<lambda>j.
        let c = uComp E ! j; r = uRef E ! i
        in intLevel E < intensity c \<and>
           0 < intensity c \<and> 0 < intensity r \<and>
           lRatio E \<le> log 2 (intensity c) - log 2 (intensity r) \<and>
           log 2 (intensity c) - log 2 (intensity r) \<le> uRatio E \<and>
           mz r \<noteq> 0 \<and> \<bar>(mz c - mz r) / mz r * 1000000\<bar> \<le> mzTol ! i \<and>
           \<bar>RT c - RT r\<bar> \<le> rtTol ! i)
       [0 ..< length (uComp E)]"

text \<open>
  Lines 440-459: what is appended for the \<open>i\<close>-th unaligned reference feature. In the
  last branch \<open>ind2\<close> is a position in \<open>ind\<close>, and the code appends \<open>uCompInd[ind2]\<close>.
\<close>

definition rescueStep ::
  "rescue_env \<Rightarrow> real list \<Rightarrow> real list \<Rightarrow> nat \<Rightarrow> nat list \<times> nat list \<times> nat \<Rightarrow> nat list \<times> nat list \<times> nat" where
  "rescueStep E rtTol mzTol i st =
     (case st of (refInd, compInd, nRescue) \<Rightarrow>
        (case rescueCandidates E rtTol mzTol i of
           [] \<Rightarrow> st
         | j0 # js \<Rightarrow>
             if z (uRef E ! i) = 0 then
               (refInd @ [uRefInd E ! i], compInd @ [uCompInd E ! j0], Suc nRescue)
             else if z (uComp E ! j0) = 0 then
               (refInd @ [uRefInd E ! i], compInd @ [uCompInd E ! j0], Suc nRescue)
             else
               (case filter (\<lambda>k. z (uComp E ! ((j0 # js) ! k)) = z (uRef E ! i)) [0 ..< length (j0 # js)] of
                  [] \<Rightarrow> st
                | k0 # _ \<Rightarrow> (refInd @ [uRefInd E ! i], compInd @ [uCompInd E ! k0], Suc nRescue))))"

text \<open>
  rescueFeatures. The first component is what was printed, also when an exception is
  raised. A tolerance unit other than "1" and "2" prints the warning and returns the
  two index lists it was given.
\<close>

definition rescueFeatures ::
  "'m lib \<Rightarrow> feature list \<Rightarrow> feature list \<Rightarrow> nat list \<Rightarrow> nat list \<Rightarrow> real list \<Rightarrow> real list
     \<Rightarrow> string \<Rightarrow> string \<Rightarrow> string \<Rightarrow> string \<Rightarrow> message list \<times> (error + nat list \<times> nat list)" where
  "rescueFeatures L ref cmp refInd compInd rtSd mzSd rtTolUnit rtTol mzTolUnit mzTol =
     (let out0 = [Unaligned (int (length cmp) - int (length compInd))] in
      case rescueCriteria L ref cmp refInd compInd rtSd mzSd of
        Inl e \<Rightarrow> (out0, Inl e)
      | Inr E \<Rightarrow>
          let out1 = out0 @ [IntensityCriterion (intLevel E), RatioCriterion 95] in
          if rtTolUnit = ''1'' \<or> rtTolUnit = ''2'' then
            let out2 = out1 @ [if rtTolUnit = ''1'' then RtWithinSd rtTol else RtWithinSeconds rtTol] in
            (case pyfloat L rtTol of
               None \<Rightarrow> (out2, Inl ValueError)
             | Some rt \<Rightarrow>
                 let rtTol' = (if rtTolUnit = ''1'' then map (\<lambda>s. rt * s) (uRtSd E)
                               else replicate (length (uRefInd E)) rt) in
                 if mzTolUnit = ''1'' \<or> mzTolUnit = ''2'' then
                   let out3 = out2 @ [if mzTolUnit = ''1'' then MzWithinSd mzTol else MzWithinSeconds mzTol] in
                   (case pyfloat L mzTol of
                      None \<Rightarrow> (out3, Inl ValueError)
                    | Some mt \<Rightarrow>
                        let mzTol' = (if mzTolUnit = ''1'' then map (\<lambda>s. mt * s) (uMzSd E)
                                      else replicate (length (uRefInd E)) mt) in
                        (case fold (rescueStep E rtTol' mzTol') [0 ..< length (uRefInd E)] (refInd, compInd, 0) of
                           (refInd', compInd', nRescue) \<Rightarrow>
                             (out3 @ [Rescued nRescue], Inr (refInd', compInd'))))
                 else (out2 @ [WarnToleranceUnit, RescueSkipped], Inr (refInd, compInd)))
          else (out1 @ [WarnToleranceUnit, RescueSkipped], Inr (refInd, compInd)))"

section \<open>alignFeatures: partition and promotion\<close>



















section \<open>Example inputs\<close>

text \<open>
  The scenario of the specification: three reference features and the same three shifted
  by +2 ppm in m/z and +1 s in RT, with \<open>sd_width = 10\<close>; \<open>ex_c4\<close> is a fourth, more
  intense comparison feature of another charge near \<open>ex_r3\<close>.
\<close>

definition ex_r1 :: feature where "ex_r1 = \<lparr>index = 1, mz = 100, z = 1, RT = 60, intensity = 1000\<rparr>"
definition ex_r2 :: feature where "ex_r2 = \<lparr>index = 2, mz = 200, z = 0, RT = 120, intensity = 500\<rparr>"
definition ex_r3 :: feature where "ex_r3 = \<lparr>index = 3, mz = 300, z = 2, RT = 180, intensity = 100\<rparr>"
definition ex_c1 :: feature where "ex_c1 = \<lparr>index = 1, mz = 100.0002, z = 1, RT = 61, intensity = 1000\<rparr>"
definition ex_c2 :: feature where "ex_c2 = \<lparr>index = 2, mz = 200.0004, z = 0, RT = 121, intensity = 500\<rparr>"
definition ex_c3 :: feature where "ex_c3 = \<lparr>index = 3, mz = 300.0006, z = 2, RT = 181, intensity = 100\<rparr>"
definition ex_c4 :: feature where "ex_c4 = \<lparr>index = 4, mz = 300.0003, z = 1, RT = 180, intensity = 700\<rparr>"
definition ex_row :: "nat \<Rightarrow> feature" where
  "ex_row k = \<lparr>index = int k, mz = 100 + real k, z = 1, RT = 60 * real k, intensity = 1000 - real k\<rparr>"
definition ex_table :: "feature list" where
  "ex_table = map ex_row [0 ..< 30]"
definition self_row :: "feature \<Rightarrow> subrow" where
  "self_row r = \<lparr>refMz = mz r, refRt = RT r, refIntensity = intensity r,
                 compMz = mz r, compRt = RT r, compIntensity = intensity r\<rparr>"
definition ex_far :: feature where "ex_far = \<lparr>index = 0, mz = 500, z = 1, RT = 30, intensity = 800\<rparr>"
definition ex_pyfloat :: "string \<Rightarrow> real option" where
  "ex_pyfloat s = (if s = ''10'' then Some 10 else if s = ''50'' then Some 50 else None)"
definition ex_pyint :: "string \<Rightarrow> int option" where
  "ex_pyint s = (if s = ''10'' then Some 10 else if s = ''20'' then Some 20 else None)"
definition ex_params :: params where
  "ex_params = [''sd_width'' \<mapsto> ''10'', ''tol_initial'' \<mapsto> ''20'']"
definition ex_store :: store where "ex_store = (\<lambda>a. [])"
definition ex_sd :: store where "ex_sd = (\<lambda>a. if a = 0 then [0, 2, 1] else [3, 0])"

definition ex_entries :: "matched list" where
  "ex_entries = [\<lparr>ref_pos = 0, ref_row = ex_r1, comp_label = 0, comp_row = ex_c1\<rparr>,
      \<lparr>ref_pos = 1, ref_row = ex_r2, comp_label = 1, comp_row = ex_c2\<rparr>,
      \<lparr>ref_pos = 2, ref_row = ex_r3, comp_label = 2, comp_row = ex_c3\<rparr>]"


text \<open>
  A library instance for running the calibration: every fit is the constant 1/2 (the
  model records the number of fitted points), the percentiles are far outside the data.
\<close>

definition ex_lib :: "(nat \<times> real) lib" where
  "ex_lib = \<lparr>np_percentile = (\<lambda>xs q. Inr (if q \<le> 50 then - 1000 else 1000)),
             np_median = (\<lambda>xs. 0), np_std = (\<lambda>xs. 0), np_normal = (\<lambda>k loc. loc),
             r_loess = (\<lambda>x y. Inr (length x, 1 / 2)),
             r_fitted = (\<lambda>(n, v). replicate n v),
             r_predict = (\<lambda>(n, v) xs. map (\<lambda>x. v) xs),
             scalar_vector = False, pyfloat = ex_pyfloat, pyint = ex_pyint\<rparr>"

definition ex_heap :: heap where
  "ex_heap = \<lparr>cells = ex_store, next_addr = 0, draws = 0\<rparr>"

definition ex_self :: "subrow list" where
  "ex_self = map (\<lambda>r. \<lparr>refMz = mz r, refRt = RT r, refIntensity = intensity r,
                        compMz = mz r, compRt = RT r, compIntensity = intensity r\<rparr>) [ex_r1, ex_r2, ex_r3]"



section \<open>Verified properties\<close>

lemmas ex_defs = ex_r1_def ex_r2_def ex_r3_def ex_c1_def ex_c2_def ex_c3_def ex_c4_def ex_pyfloat_def ex_params_def ex_store_def

subsection \<open>Zero-flooring\<close>

lemma fold_min_Min: "fold min ps (p::real) = Min (set (p # ps))"
  by (rule Min.set_eq_fold [symmetric])

lemma floorZeros_Inr:
  assumes "\<exists>x\<in>set sd. 0 < x"
  shows "floorZeros sd = Inr (map (\<lambda>x. if x = 0 then Min {y \<in> set sd. 0 < y} else x) sd)"
proof -
  from assms obtain p ps where f: "filter (\<lambda>x. 0 < x) sd = p # ps"
    by (cases "filter (\<lambda>x. 0 < x) sd") (auto simp: filter_empty_conv)
  have "set (p # ps) = {y \<in> set sd. 0 < y}"
    using f by (metis set_filter)
  then show ?thesis
    using f by (simp add: floorZeros_def fold_min_Min del: set_simps)
qed

lemma Min_pos:
  assumes "\<exists>x\<in>set sd. (0::real) < x"
  shows "0 < Min {y \<in> set sd. 0 < y}"
proof -
  have "finite {y \<in> set sd. 0 < y}" by simp
  moreover have "{y \<in> set sd. 0 < y} \<noteq> {}" using assms by auto
  ultimately have "Min {y \<in> set sd. 0 < y} \<in> {y \<in> set sd. 0 < y}" by (rule Min_in)
  then show ?thesis by simp
qed

text \<open>
  C5. For an SD array with at least one positive entry the flooring step succeeds, and in
  the floored array no entry is zero, every nonzero entry (so every positive one) is
  unchanged, and every entry that was zero is the least positive entry of the original.
\<close>

theorem floorZeros_invariant:
  assumes "\<exists>x\<in>set sd. 0 < x"
  shows "\<exists>sd'. floorZeros sd = Inr sd' \<and> length sd' = length sd \<and> 0 \<notin> set sd' \<and>
           (\<forall>i<length sd. (sd ! i \<noteq> 0 \<longrightarrow> sd' ! i = sd ! i) \<and>
                           (sd ! i = 0 \<longrightarrow> sd' ! i = Min {y \<in> set sd. 0 < y}))"
proof -
  let ?m = "Min {y \<in> set sd. 0 < y}"
  let ?sd' = "map (\<lambda>x. if x = 0 then ?m else x) sd"
  have pos: "0 < ?m" using assms by (rule Min_pos)
  have "floorZeros sd = Inr ?sd'" using assms by (rule floorZeros_Inr)
  moreover have "length ?sd' = length sd" by simp
  moreover have "0 \<notin> set ?sd'" using pos by auto
  moreover have "\<forall>i<length sd. (sd ! i \<noteq> 0 \<longrightarrow> ?sd' ! i = sd ! i) \<and> (sd ! i = 0 \<longrightarrow> ?sd' ! i = ?m)"
    by simp
  ultimately show ?thesis by blast
qed

theorem floorZeros_invariant_witness:
  "\<exists>sd'. floorZeros [0, 2, 0, 1, - 1] = Inr sd' \<and> length sd' = length [0, 2, 0, 1, - 1 :: real] \<and> 0 \<notin> set sd' \<and>
           (\<forall>i<length [0, 2, 0, 1, - 1 :: real]. ([0, 2, 0, 1, - 1 :: real] ! i \<noteq> 0 \<longrightarrow> sd' ! i = [0, 2, 0, 1, - 1] ! i) \<and>
                           ([0, 2, 0, 1, - 1 :: real] ! i = 0 \<longrightarrow> sd' ! i = Min {y \<in> set [0, 2, 0, 1, - 1]. 0 < y}))"
proof -
  have h: "\<exists>x\<in>set [0, 2, 0, 1, - 1 :: real]. 0 < x" by simp
  show ?thesis by (rule floorZeros_invariant [OF h])
qed

subsection \<open>matchFeatures: one-to-one and charge-compatible\<close>

lemma matchRow_mem:
  "matchRow a b r pool = Some (l, c) \<Longrightarrow> (l, c) \<in> set pool"
proof -
  assume m: "matchRow a b r pool = Some (l, c)"
  have sub: "\<And>P x xs. filter P pool = x # xs \<Longrightarrow> x \<in> set pool"
  proof -
    fix P and x :: "nat \<times> feature" and xs
    assume "filter P pool = x # xs"
    then have "x \<in> set (filter P pool)" by simp
    then show "x \<in> set pool" by simp
  qed
  show ?thesis
    using m unfolding matchRow_def
    by (auto split: list.splits if_splits dest: sub)
qed

lemma matchRow_charge:
  "matchRow a b r pool = Some (l, c) \<Longrightarrow> z r = z c \<or> z r = 0 \<or> z c = 0"
proof -
  assume m: "matchRow a b r pool = Some (l, c)"
  have hd: "\<And>P x xs. filter P pool = x # xs \<Longrightarrow> P x"
    by (metis filter_eq_ConsD)
  show ?thesis
    using m unfolding matchRow_def
    by (auto split: list.splits if_splits dest: hd)
qed

lemma matchRow_exact:
  assumes "matchRow a b r pool = Some (l, c)"
    and "filter (\<lambda>(l, c). inTol a b r c) pool = (l0, c0) # rest"
    and "z r \<noteq> 0" and "z c0 \<noteq> 0"
  shows "z c = z r \<and> inTol a b r c"
proof -
  have hd: "\<And>P x xs. filter P pool = x # xs \<Longrightarrow> P x"
    by (metis filter_eq_ConsD)
  show ?thesis
    using assms unfolding matchRow_def
    by (auto split: list.splits if_splits dest: hd)
qed

lemma drop_label_subset: "set (drop_label l pool) \<subseteq> set pool"
  by (auto simp: drop_label_def)

lemma drop_label_fresh: "l \<notin> fst ` set (drop_label l pool)"
  by (auto simp: drop_label_def)

lemma matchLoop_inv:
  "matchLoop rtTol mzTol pool i rs = Inr d \<Longrightarrow>
     (\<forall>m\<in>set d. i \<le> ref_pos m \<and> ref_pos m < i + length rs \<and> ref_row m = rs ! (ref_pos m - i) \<and>
                 (comp_label m, comp_row m) \<in> set pool \<and>
                 (z (ref_row m) = z (comp_row m) \<or> z (ref_row m) = 0 \<or> z (comp_row m) = 0)) \<and>
     distinct (map ref_pos d) \<and> distinct (map comp_label d)"
proof (induction rs arbitrary: pool i d)
  case Nil
  then show ?case by simp
next
  case (Cons r rs)
  from Cons.prems have len: "i < length rtTol" "i < length mzTol"
    by (auto split: if_splits)
  show ?case
  proof (cases "matchRow (rtTol ! i) (mzTol ! i) r pool")
    case None
    with Cons.prems len have "matchLoop rtTol mzTol pool (Suc i) rs = Inr d" by simp
    from Cons.IH [OF this] show ?thesis
      by (auto simp: nth_Cons')
  next
    case (Some lc)
    obtain l c where lc: "lc = (l, c)" by (cases lc)
    from Cons.prems len Some lc obtain d' where
      rec: "matchLoop rtTol mzTol (drop_label l pool) (Suc i) rs = Inr d'" and
      d: "d = \<lparr>ref_pos = i, ref_row = r, comp_label = l, comp_row = c\<rparr> # d'"
      by (auto split: sum.splits)
    note ih = Cons.IH [OF rec]
    have mem: "(l, c) \<in> set pool" using Some lc by (auto dest: matchRow_mem)
    have ch: "z r = z c \<or> z r = 0 \<or> z c = 0" using Some lc by (auto dest: matchRow_charge)
    have fresh_l: "l \<notin> comp_label ` set d'"
    proof
      assume "l \<in> comp_label ` set d'"
      then obtain m where "m \<in> set d'" "comp_label m = l" by auto
      with ih have "(l, comp_row m) \<in> set (drop_label l pool)" by auto
      then show False using drop_label_fresh [of l pool] by force
    qed
    have fresh_i: "i \<notin> ref_pos ` set d'" using ih by force
    have "\<forall>m\<in>set d'. (comp_label m, comp_row m) \<in> set pool"
      using ih drop_label_subset [of l pool] by blast
    then show ?thesis
      using ih mem ch fresh_l fresh_i unfolding d
      by (auto simp: nth_Cons')
  qed
qed

lemma relabel_mem: "(l, c) \<in> set (relabel rows) \<Longrightarrow> l < length rows \<and> c = rows ! l"
  unfolding relabel_def by (auto simp: in_set_zip)

lemma length_sort_values: "length (sort_values rows) = length rows"
  by (simp add: sort_values_def)

lemma matchEntries_Inr:
  assumes "matchEntries pf h ref cmp rtSd mzSd ps = (h', Inr d)"
  shows "\<exists>rtTol mzTol. matchLoop rtTol mzTol (relabel (sort_values cmp)) 0 (sort_values ref) = Inr d"
  using assms unfolding matchEntries_def Let_def
  by (auto split: prod.splits sum.splits)

lemma ex_matchEntries:
  "matchEntries ex_pyfloat ex_store [ex_r3, ex_r1, ex_r2] [ex_c2, ex_c3, ex_c1] (PyFloat 1) (PyFloat 1) ex_params
  = (ex_store, Inr ex_entries)"
  by (simp add: matchEntries_def sort_values_def relabel_def floorZeros_def float_param_def
      matchRow_def inTol_def drop_label_def ex_defs ex_entries_def upt_rec numeral_3_eq_3)

lemma distinct_map_nth:
  assumes dp: "distinct (map p d)" and dx: "distinct (map f xs)"
    and rows: "\<forall>m\<in>set d. p m < length xs \<and> row m = xs ! p m"
  shows "distinct (map (\<lambda>m. f (row m)) d)"
proof -
  from dp have dd: "distinct d" and inj: "inj_on p (set d)" by (auto simp: distinct_map)
  have "inj_on (\<lambda>m. f (row m)) (set d)"
  proof (rule inj_onI)
    fix m1 m2 assume m: "m1 \<in> set d" "m2 \<in> set d" and eq: "f (row m1) = f (row m2)"
    from m rows have b: "p m1 < length xs" "p m2 < length xs" "row m1 = xs ! p m1" "row m2 = xs ! p m2"
      by auto
    with eq have "map f xs ! p m1 = map f xs ! p m2" by simp
    with nth_eq_iff_index_eq [OF dx, of "p m1" "p m2"] b have "p m1 = p m2" by simp
    with inj m show "m1 = m2" by (auto dest: inj_onD)
  qed
  with dd show ?thesis by (simp add: distinct_map)
qed

lemma distinct_sort_values: "distinct (map f rows) \<Longrightarrow> distinct (map f (sort_values rows))"
  by (simp add: distinct_map sort_values_def)

text \<open>
  C1. In the output of matchFeatures no reference row and no comparison row occurs twice:
  the entries have pairwise different reference positions and pairwise different
  comparison labels, each entry holds the rows at that position and label of the sorted
  tables, the returned frame is the projection of the entries, and when the \<open>index\<close>
  column of a table has no duplicates, neither has the \<open>ref_index\<close> (\<open>comp_index\<close>)
  column of the output.
\<close>

theorem matchFeatures_one_to_one:
  assumes "matchEntries pf h ref cmp rtSd mzSd ps = (h', Inr d)"
  shows "distinct (map ref_pos d) \<and> distinct (map comp_label d) \<and>
         (\<forall>m\<in>set d. ref_pos m < length ref \<and> ref_row m = sort_values ref ! ref_pos m \<and>
                     comp_label m < length cmp \<and> comp_row m = sort_values cmp ! comp_label m) \<and>
         matchFeatures pf h ref cmp rtSd mzSd ps = (h', Inr (map (\<lambda>m. (ref_row m, comp_row m)) d)) \<and>
         (distinct (map index ref) \<longrightarrow> distinct (map (\<lambda>m. index (ref_row m)) d)) \<and>
         (distinct (map index cmp) \<longrightarrow> distinct (map (\<lambda>m. index (comp_row m)) d))"
proof -
  from matchEntries_Inr [OF assms] obtain rtTol mzTol where
    "matchLoop rtTol mzTol (relabel (sort_values cmp)) 0 (sort_values ref) = Inr d" by blast
  note inv = matchLoop_inv [OF this]
  have c: "\<forall>m\<in>set d. comp_label m < length (sort_values cmp) \<and> comp_row m = sort_values cmp ! comp_label m"
    using inv relabel_mem [of _ _ "sort_values cmp"] by auto
  have r: "\<forall>m\<in>set d. ref_pos m < length (sort_values ref) \<and> ref_row m = sort_values ref ! ref_pos m"
    using inv by auto
  have f: "matchFeatures pf h ref cmp rtSd mzSd ps = (h', Inr (map (\<lambda>m. (ref_row m, comp_row m)) d))"
    using assms by (simp add: matchFeatures_def)
  have ir: "distinct (map index ref) \<longrightarrow> distinct (map (\<lambda>m. index (ref_row m)) d)"
    using distinct_map_nth [of ref_pos d index "sort_values ref" ref_row] inv r
    by (auto dest: distinct_sort_values)
  have ic: "distinct (map index cmp) \<longrightarrow> distinct (map (\<lambda>m. index (comp_row m)) d)"
    using distinct_map_nth [of comp_label d index "sort_values cmp" comp_row] inv c
    by (auto dest: distinct_sort_values)
  show ?thesis using inv c r f ir ic by (simp add: length_sort_values)
qed

theorem matchFeatures_one_to_one_witness:
  "matchEntries ex_pyfloat ex_store [ex_r3, ex_r1, ex_r2] [ex_c2, ex_c3, ex_c1] (PyFloat 1) (PyFloat 1) ex_params
     = (ex_store, Inr ex_entries) \<and>
   distinct (map index [ex_r3, ex_r1, ex_r2]) \<and> distinct (map index [ex_c2, ex_c3, ex_c1]) \<and>
   distinct (map ref_pos ex_entries) \<and> distinct (map comp_label ex_entries) \<and>
   matchFeatures ex_pyfloat ex_store [ex_r3, ex_r1, ex_r2] [ex_c2, ex_c3, ex_c1] (PyFloat 1) (PyFloat 1) ex_params
     = (ex_store, Inr (map (\<lambda>m. (ref_row m, comp_row m)) ex_entries)) \<and>
   distinct (map (\<lambda>m. index (ref_row m)) ex_entries) \<and>
   distinct (map (\<lambda>m. index (comp_row m)) ex_entries)"
proof -
  have dr: "distinct (map index [ex_r3, ex_r1, ex_r2])" by (simp add: ex_defs)
  have dc: "distinct (map index [ex_c2, ex_c3, ex_c1])" by (simp add: ex_defs)
  note t = matchFeatures_one_to_one [OF ex_matchEntries]
  from t have a: "distinct (map ref_pos ex_entries)" by (rule conjunct1)
  from t have b: "distinct (map comp_label ex_entries)" by blast
  from t have c: "matchFeatures ex_pyfloat ex_store [ex_r3, ex_r1, ex_r2] [ex_c2, ex_c3, ex_c1] (PyFloat 1) (PyFloat 1) ex_params
     = (ex_store, Inr (map (\<lambda>m. (ref_row m, comp_row m)) ex_entries))" by blast
  from t dr have d: "distinct (map (\<lambda>m. index (ref_row m)) ex_entries)" by blast
  from t dc have e: "distinct (map (\<lambda>m. index (comp_row m)) ex_entries)" by blast
  from ex_matchEntries dr dc a b c d e show ?thesis by blast
qed

text \<open>
  C2. Every pair that matchFeatures returns is charge-compatible: the charges are equal,
  or one of them is 0. In one step of the loop, when the reference charge is not 0 and
  the most intense in-tolerance candidate \<open>c0\<close> has a charge other than 0, the accepted
  candidate has exactly the reference charge (and is in tolerance).
\<close>

theorem matchFeatures_charge_compatible:
  assumes "matchFeatures pf h ref cmp rtSd mzSd ps = (h', Inr out)"
  shows "(\<forall>(r, c)\<in>set out. z r = z c \<or> z r = 0 \<or> z c = 0) \<and>
         (matchRow rtTol mzTol r pool = Some (l, c) \<and>
          filter (\<lambda>(l, c). inTol rtTol mzTol r c) pool = (l0, c0) # rest \<and> z r \<noteq> 0 \<and> z c0 \<noteq> 0
            \<longrightarrow> z c = z r \<and> inTol rtTol mzTol r c)"
proof -
  from assms obtain d where e: "matchEntries pf h ref cmp rtSd mzSd ps = (h', Inr d)"
    and out: "out = map (\<lambda>m. (ref_row m, comp_row m)) d"
    unfolding matchFeatures_def by (auto split: prod.splits sum.splits)
  from matchEntries_Inr [OF e] obtain a b where
    "matchLoop a b (relabel (sort_values cmp)) 0 (sort_values ref) = Inr d" by blast
  note inv = matchLoop_inv [OF this]
  have "\<forall>(r, c)\<in>set out. z r = z c \<or> z r = 0 \<or> z c = 0"
    using inv unfolding out by auto
  then show ?thesis using matchRow_exact [of rtTol mzTol r pool l c l0 c0 rest] by blast
qed

theorem matchFeatures_charge_compatible_witness:
  "matchFeatures ex_pyfloat ex_store [ex_r3, ex_r1, ex_r2] [ex_c2, ex_c3, ex_c1] (PyFloat 1) (PyFloat 1) ex_params
     = (ex_store, Inr [(ex_r1, ex_c1), (ex_r2, ex_c2), (ex_r3, ex_c3)]) \<and>
   list_all (\<lambda>(r, c). z r = z c \<or> z r = 0 \<or> z c = 0) [(ex_r1, ex_c1), (ex_r2, ex_c2), (ex_r3, ex_c3)] \<and>
   matchRow 10 10 ex_r3 [(0, ex_c4), (1, ex_c3)] = Some (1, ex_c3) \<and>
   filter (\<lambda>(l, c). inTol 10 10 ex_r3 c) [(0, ex_c4), (1, ex_c3)] = (0, ex_c4) # [(1, ex_c3)] \<and>
   z ex_r3 \<noteq> 0 \<and> z ex_c4 \<noteq> 0 \<and> z ex_c3 = z ex_r3 \<and> inTol 10 10 ex_r3 ex_c3"
proof -
  have m: "matchFeatures ex_pyfloat ex_store [ex_r3, ex_r1, ex_r2] [ex_c2, ex_c3, ex_c1] (PyFloat 1) (PyFloat 1) ex_params
     = (ex_store, Inr [(ex_r1, ex_c1), (ex_r2, ex_c2), (ex_r3, ex_c3)])"
    by (simp add: matchFeatures_def ex_matchEntries ex_entries_def)
  have f: "filter (\<lambda>(l, c). inTol 10 10 ex_r3 c) [(0, ex_c4), (1, ex_c3)] = (0, ex_c4) # [(1, ex_c3)]"
    by (simp add: inTol_def ex_defs)
  have r: "matchRow 10 10 ex_r3 [(0, ex_c4), (1, ex_c3)] = Some (1, ex_c3)"
    by (simp add: matchRow_def inTol_def ex_defs)
  have z1: "z ex_r3 \<noteq> 0" by (simp add: ex_defs)
  have z2: "z ex_c4 \<noteq> 0" by (simp add: ex_defs)
  note t = matchFeatures_charge_compatible [OF m, of 10 10 ex_r3 "[(0, ex_c4), (1, ex_c3)]" 1 ex_c3 0 ex_c4 "[(1, ex_c3)]"]
  from t have "\<forall>(r, c)\<in>set [(ex_r1, ex_c1), (ex_r2, ex_c2), (ex_r3, ex_c3)]. z r = z c \<or> z r = 0 \<or> z c = 0"
    by (rule conjunct1)
  then have a: "list_all (\<lambda>(r, c). z r = z c \<or> z r = 0 \<or> z c = 0) [(ex_r1, ex_c1), (ex_r2, ex_c2), (ex_r3, ex_c3)]"
    by (simp only: list_all_iff)
  from t r f z1 z2 have b: "z ex_c3 = z ex_r3 \<and> inTol 10 10 ex_r3 ex_c3" by blast
  from m a r f z1 z2 b show ?thesis by blast
qed

subsection \<open>The flooring is done in place\<close>

lemma floorZeros_floored:
  "\<exists>x\<in>set sd. 0 < x \<Longrightarrow> floorZeros sd = Inr (floored sd)"
  unfolding floored_def by (rule floorZeros_Inr)

lemma floored_no_zero: "\<exists>x\<in>set sd. 0 < x \<Longrightarrow> 0 \<notin> set (floored sd)"
  using Min_pos [of sd] by (auto simp: floored_def)

lemma floored_pos: "\<exists>x\<in>set sd. 0 < x \<Longrightarrow> \<exists>x\<in>set (floored sd). 0 < x"
  unfolding floored_def by force

lemma floored_idem:
  assumes "\<exists>x\<in>set sd. 0 < x"
  shows "floored (floored sd) = floored sd"
proof -
  have "0 \<notin> set (floored sd)" using assms by (rule floored_no_zero)
  then have "map (\<lambda>x. if x = 0 then Min {y \<in> set (floored sd). 0 < y} else x) (floored sd) = floored sd"
    by (intro map_idI) auto
  then show ?thesis by (simp add: floored_def [of "floored sd"])
qed

lemma floorSd_NdArray:
  assumes "\<exists>x\<in>set (h a). 0 < x"
  shows "floorSd h n (NdArray a) = (h(a := floored (h a)), Inr (Shared a))"
  using floorZeros_floored [OF assms] by simp

lemma floorSd_twice:
  assumes pa: "\<exists>x\<in>set (h a). 0 < x" and pb: "\<exists>x\<in>set (h b). 0 < x"
  shows "floorSd (h(a := floored (h a))) n (NdArray b)
           = (h(a := floored (h a), b := floored (h b)), Inr (Shared b))"
proof (cases "a = b")
  case True
  have "\<exists>x\<in>set ((h(a := floored (h a))) a). 0 < x" using floored_pos [OF pa] by simp
  from floorSd_NdArray [of "h(a := floored (h a))" a n, OF this] show ?thesis
    using True floored_idem [OF pa] by simp
next
  case False
  then have "\<exists>x\<in>set ((h(a := floored (h a))) b). 0 < x" using pb by simp
  from floorSd_NdArray [of "h(a := floored (h a))" b n, OF this] show ?thesis
    using False by simp
qed

lemma floorZeros_none: "\<not> (\<exists>x\<in>set sd. 0 < x) \<Longrightarrow> floorZeros sd = Inl ValueError"
  by (simp add: floorZeros_def filter_empty_conv)

lemma floorSd_ok:
  assumes "flooringOk h n sd"
  shows "\<exists>r. floorSd h n sd = (flooredStore h sd, Inr r)"
proof (cases sd)
  case (PyFloat v)
  with assms have "\<exists>x\<in>set (replicate n v). 0 < x" by (simp add: flooringOk_def)
  from floorZeros_floored [OF this] show ?thesis using PyFloat by (simp add: flooredStore_def)
next
  case (PyList xs)
  with assms show ?thesis by (simp add: flooringOk_def)
next
  case (NdArray a)
  with assms have "\<exists>x\<in>set (h a). 0 < x" by (simp add: flooringOk_def)
  from floorSd_NdArray [of h a n, OF this] show ?thesis using NdArray by (simp add: flooredStore_def)
qed

lemma floorSd_fail:
  assumes "\<not> flooringOk h n sd"
  shows "\<exists>e. floorSd h n sd = (h, Inl e)"
proof (cases sd)
  case (PyFloat v)
  with assms have "\<not> (\<exists>x\<in>set (replicate n v). 0 < x)" by (auto simp: flooringOk_def)
  from floorZeros_none [OF this] show ?thesis using PyFloat by simp
next
  case (PyList xs)
  then show ?thesis by simp
next
  case (NdArray a)
  with assms have "\<not> (\<exists>x\<in>set (h a). 0 < x)" by (simp add: flooringOk_def)
  from floorZeros_none [OF this] show ?thesis using NdArray by simp
qed

lemma flooringOk_after:
  assumes "flooringOk h n rtSd"
  shows "flooringOk (flooredStore h rtSd) n mzSd \<longleftrightarrow> flooringOk h n mzSd"
proof (cases rtSd)
  case (NdArray a)
  with assms have pa: "\<exists>x\<in>set (h a). 0 < x" by (simp add: flooringOk_def)
  show ?thesis
  proof (cases mzSd)
    case (NdArray b)
    show ?thesis
      using pa floored_pos [OF pa] \<open>rtSd = NdArray a\<close> NdArray
      by (cases "a = b") (simp_all add: flooringOk_def flooredStore_def)
  qed (simp_all add: flooringOk_def)
qed (simp_all add: flooringOk_def flooredStore_def split: sdarg.splits)

lemma flooring_steps:
  "(case floorSd h n rtSd of
      (h1, Inl e) \<Rightarrow> (h1, Inl e)
    | (h1, Inr rtRef) \<Rightarrow>
        (case floorSd h1 n mzSd of
           (h2, Inl e) \<Rightarrow> (h2, Inl e)
         | (h2, Inr mzRef) \<Rightarrow> (h2, k h2 rtRef mzRef)))
   = (h', v) \<Longrightarrow> h' = flooringEffect h n rtSd mzSd"
proof -
  assume a: "(case floorSd h n rtSd of
      (h1, Inl e) \<Rightarrow> (h1, Inl e)
    | (h1, Inr rtRef) \<Rightarrow>
        (case floorSd h1 n mzSd of
           (h2, Inl e) \<Rightarrow> (h2, Inl e)
         | (h2, Inr mzRef) \<Rightarrow> (h2, k h2 rtRef mzRef)))
   = (h', v)"
  show ?thesis
  proof (cases "flooringOk h n rtSd")
    case False
    from floorSd_fail [OF False] obtain e where "floorSd h n rtSd = (h, Inl e)" ..
    with a False show ?thesis by (simp add: flooringEffect_def)
  next
    case True
    from floorSd_ok [OF True] obtain r where r: "floorSd h n rtSd = (flooredStore h rtSd, Inr r)" ..
    show ?thesis
    proof (cases "flooringOk h n mzSd")
      case False
      then have "\<not> flooringOk (flooredStore h rtSd) n mzSd" using flooringOk_after [OF True] by simp
      from floorSd_fail [OF this] obtain e where "floorSd (flooredStore h rtSd) n mzSd = (flooredStore h rtSd, Inl e)" ..
      with a r True False show ?thesis by (simp add: flooringEffect_def)
    next
      case mz: True
      then have "flooringOk (flooredStore h rtSd) n mzSd" using flooringOk_after [OF True] by simp
      from floorSd_ok [OF this] obtain r2 where
        "floorSd (flooredStore h rtSd) n mzSd = (flooredStore (flooredStore h rtSd) mzSd, Inr r2)" ..
      with a r True mz show ?thesis by (simp add: flooringEffect_def)
    qed
  qed
qed

lemma matchFeatures_store:
  "fst (matchFeatures pf h ref cmp rtSd mzSd ps) = flooringEffect h (length ref) rtSd mzSd"
proof -
  obtain h' v where e: "matchEntries pf h ref cmp rtSd mzSd ps = (h', v)" by (cases "matchEntries pf h ref cmp rtSd mzSd ps")
  have "h' = flooringEffect h (length (sort_values ref)) rtSd mzSd"
    by (rule flooring_steps [where k = "\<lambda>h2 rtRef mzRef. case float_param pf ps ''sd_width'' of Inl e \<Rightarrow> Inl e
         | Inr sdWidth \<Rightarrow> matchLoop (map (\<lambda>s. s * sdWidth) (deref h2 rtRef)) (map (\<lambda>s. s * sdWidth) (deref h2 mzRef))
               (relabel (sort_values cmp)) 0 (sort_values ref)" and v = v])
       (use e in \<open>simp add: matchEntries_def Let_def split: prod.splits sum.splits\<close>)
  then show ?thesis using e by (simp add: matchFeatures_def length_sort_values split: sum.splits)
qed

lemma findMatchedSubset_store:
  "fst (findMatchedSubset pf h ref cmp rtSd mzSd ps) = flooringEffect h (length ref) rtSd mzSd"
proof -
  obtain h' v where e: "findMatchedSubset pf h ref cmp rtSd mzSd ps = (h', v)" by (cases "findMatchedSubset pf h ref cmp rtSd mzSd ps")
  have "h' = flooringEffect h (length (sort_values ref)) rtSd mzSd"
    by (rule flooring_steps [where k = "\<lambda>h2 rtRef mzRef. case float_param pf ps ''sd_width'' of Inl e \<Rightarrow> Inl e
         | Inr sdWidth \<Rightarrow> subsetLoop (map (\<lambda>s. s * sdWidth) (deref h2 rtRef)) (map (\<lambda>s. s * sdWidth) (deref h2 mzRef))
               (relabel (sort_values cmp)) 0 (sort_values ref)" and v = v])
       (use e in \<open>simp add: findMatchedSubset_def Let_def split: prod.splits sum.splits\<close>)
  then show ?thesis using e by (simp add: length_sort_values)
qed


lemma flooringEffect_rt:
  assumes "\<exists>x\<in>set (h a). 0 < x"
  shows "flooringEffect h n (NdArray a) mzSd a = floored (h a)"
proof -
  have ok: "flooringOk h n (NdArray a)" using assms by (simp add: flooringOk_def)
  show ?thesis
  proof (cases "mzSd = NdArray a")
    case True
    then show ?thesis using ok floored_idem [OF assms] by (simp add: flooringEffect_def flooredStore_def)
  next
    case False
    then show ?thesis using ok by (cases mzSd) (simp_all add: flooringEffect_def flooredStore_def)
  qed
qed

lemma flooringEffect_mz:
  assumes "\<exists>x\<in>set (h b). 0 < x" and "flooringOk h n rtSd"
  shows "flooringEffect h n rtSd (NdArray b) b = floored (h b)"
proof -
  have ok: "flooringOk h n (NdArray b)" using assms(1) by (simp add: flooringOk_def)
  show ?thesis
  proof (cases "rtSd = NdArray b")
    case True
    then show ?thesis using ok floored_idem [OF assms(1)] by (simp add: flooringEffect_def flooredStore_def)
  next
    case False
    then show ?thesis using ok assms(2) by (cases rtSd) (simp_all add: flooringEffect_def flooredStore_def)
  qed
qed

lemma flooringEffect_frame:
  assumes "rtSd \<noteq> NdArray c" and "mzSd \<noteq> NdArray c"
  shows "flooringEffect h n rtSd mzSd c = h c"
  using assms by (cases rtSd; cases mzSd) (auto simp: flooringEffect_def flooredStore_def)

lemma floored_changed:
  assumes "\<exists>x\<in>set sd. 0 < x" and "0 \<in> set sd"
  shows "floored sd \<noteq> sd"
  using floored_no_zero [OF assms(1)] assms(2) by auto

lemma matchFeatures_rt_fails:
  assumes "\<not> flooringOk h (length ref) rtSd"
  shows "\<exists>e. matchFeatures pf h ref cmp rtSd mzSd ps = (h, Inl e)"
proof -
  from floorSd_fail [OF assms] obtain e where "floorSd h (length ref) rtSd = (h, Inl e)" ..
  then show ?thesis by (simp add: matchFeatures_def matchEntries_def Let_def length_sort_values)
qed

lemma findMatchedSubset_rt_fails:
  assumes "\<not> flooringOk h (length ref) rtSd"
  shows "\<exists>e. findMatchedSubset pf h ref cmp rtSd mzSd ps = (h, Inl e)"
proof -
  from floorSd_fail [OF assms] obtain e where "floorSd h (length ref) rtSd = (h, Inl e)" ..
  then show ?thesis by (simp add: findMatchedSubset_def Let_def length_sort_values)
qed

lemma flooringOk_case:
  "flooringOk h (length ref) rtSd \<longleftrightarrow>
     (case rtSd of PyFloat v \<Rightarrow> 0 < v \<and> ref \<noteq> [] | PyList xs \<Rightarrow> False
      | NdArray r \<Rightarrow> \<exists>x\<in>set (h r). 0 < x)"
  by (simp add: flooringOk_def split: sdarg.splits)

lemma flooringEffect_nopos:
  assumes "\<not> (\<exists>x\<in>set (h b). 0 < x)"
  shows "flooringEffect h n rtSd (NdArray b) b = h b"
proof -
  have no: "\<not> flooringOk h n (NdArray b)" using assms by (simp add: flooringOk_def)
  show ?thesis
  proof (cases "flooringOk h n rtSd")
    case False
    then show ?thesis by (simp add: flooringEffect_def)
  next
    case True
    with no have "rtSd \<noteq> NdArray b" by auto
    then show ?thesis using True no by (cases rtSd) (simp_all add: flooringEffect_def flooredStore_def)
  qed
qed

text \<open>
  C10 (amended). matchFeatures and findMatchedSubset floor the caller's arrays
  themselves, \<open>rtSd\<close> first and \<open>mzSd\<close> after it, and the store is what the caller sees
  after the call, whether the call returns or raises later.
  \<^item> An \<open>rtSd\<close> array with a positive entry holds its floored contents after the call,
    whatever \<open>mzSd\<close> is (a scalar, a list, another array or the same array); if it
    contained a zero it has changed.
  \<^item> An \<open>mzSd\<close> array with a positive entry holds its floored contents after the call
    when the flooring of \<open>rtSd\<close> returns: \<open>rtSd\<close> is a positive scalar (and the reference
    table is not empty) or an array with a positive entry.
  \<^item> When the flooring of \<open>rtSd\<close> raises (a list, a scalar that is not positive, an
    array without positive entry), the call raises and the store is unchanged: an \<open>mzSd\<close>
    array keeps its zeros.
  \<^item> An array without positive entry is never changed, and no array other than the two
    arguments is changed.
\<close>

theorem flooring_in_place:
  "((\<exists>x\<in>set (h a). 0 < x) \<longrightarrow>
      fst (matchFeatures pf h ref cmp (NdArray a) mzSd ps) a = floored (h a) \<and>
      fst (findMatchedSubset pf h ref cmp (NdArray a) mzSd ps) a = floored (h a) \<and>
      (0 \<in> set (h a) \<longrightarrow> floored (h a) \<noteq> h a)) \<and>
   ((\<exists>x\<in>set (h b). 0 < x) \<and>
    (case rtSd of PyFloat v \<Rightarrow> 0 < v \<and> ref \<noteq> [] | PyList xs \<Rightarrow> False
     | NdArray r \<Rightarrow> \<exists>x\<in>set (h r). 0 < x) \<longrightarrow>
      fst (matchFeatures pf h ref cmp rtSd (NdArray b) ps) b = floored (h b) \<and>
      fst (findMatchedSubset pf h ref cmp rtSd (NdArray b) ps) b = floored (h b) \<and>
      (0 \<in> set (h b) \<longrightarrow> floored (h b) \<noteq> h b)) \<and>
   (\<not> (case rtSd of PyFloat v \<Rightarrow> 0 < v \<and> ref \<noteq> [] | PyList xs \<Rightarrow> False
        | NdArray r \<Rightarrow> \<exists>x\<in>set (h r). 0 < x) \<longrightarrow>
      (\<exists>e. matchFeatures pf h ref cmp rtSd mzSd ps = (h, Inl e)) \<and>
      (\<exists>e. findMatchedSubset pf h ref cmp rtSd mzSd ps = (h, Inl e))) \<and>
   (\<not> (\<exists>x\<in>set (h b). 0 < x) \<longrightarrow>
      fst (matchFeatures pf h ref cmp rtSd (NdArray b) ps) b = h b \<and>
      fst (findMatchedSubset pf h ref cmp rtSd (NdArray b) ps) b = h b) \<and>
   (rtSd \<noteq> NdArray c \<and> mzSd \<noteq> NdArray c \<longrightarrow>
      fst (matchFeatures pf h ref cmp rtSd mzSd ps) c = h c \<and>
      fst (findMatchedSubset pf h ref cmp rtSd mzSd ps) c = h c)"
proof (intro conjI impI)
  assume pa: "\<exists>x\<in>set (h a). 0 < x"
  show "fst (matchFeatures pf h ref cmp (NdArray a) mzSd ps) a = floored (h a)"
    unfolding matchFeatures_store using pa by (rule flooringEffect_rt)
  show "fst (findMatchedSubset pf h ref cmp (NdArray a) mzSd ps) a = floored (h a)"
    unfolding findMatchedSubset_store using pa by (rule flooringEffect_rt)
  assume "0 \<in> set (h a)"
  with pa show "floored (h a) \<noteq> h a" by (rule floored_changed)
next
  assume "(\<exists>x\<in>set (h b). 0 < x) \<and>
    (case rtSd of PyFloat v \<Rightarrow> 0 < v \<and> ref \<noteq> [] | PyList xs \<Rightarrow> False
     | NdArray r \<Rightarrow> \<exists>x\<in>set (h r). 0 < x)"
  then have pb: "\<exists>x\<in>set (h b). 0 < x" and ok: "flooringOk h (length ref) rtSd"
    unfolding flooringOk_case by blast+
  show "fst (matchFeatures pf h ref cmp rtSd (NdArray b) ps) b = floored (h b)"
    unfolding matchFeatures_store using pb ok by (rule flooringEffect_mz)
  show "fst (findMatchedSubset pf h ref cmp rtSd (NdArray b) ps) b = floored (h b)"
    unfolding findMatchedSubset_store using pb ok by (rule flooringEffect_mz)
  assume "0 \<in> set (h b)"
  with pb show "floored (h b) \<noteq> h b" by (rule floored_changed)
next
  assume "\<not> (case rtSd of PyFloat v \<Rightarrow> 0 < v \<and> ref \<noteq> [] | PyList xs \<Rightarrow> False
        | NdArray r \<Rightarrow> \<exists>x\<in>set (h r). 0 < x)"
  then have no: "\<not> flooringOk h (length ref) rtSd" unfolding flooringOk_case .
  show "\<exists>e. matchFeatures pf h ref cmp rtSd mzSd ps = (h, Inl e)"
    by (rule matchFeatures_rt_fails [OF no])
  show "\<exists>e. findMatchedSubset pf h ref cmp rtSd mzSd ps = (h, Inl e)"
    by (rule findMatchedSubset_rt_fails [OF no])
next
  assume nb: "\<not> (\<exists>x\<in>set (h b). 0 < x)"
  show "fst (matchFeatures pf h ref cmp rtSd (NdArray b) ps) b = h b"
    unfolding matchFeatures_store using nb by (rule flooringEffect_nopos)
  show "fst (findMatchedSubset pf h ref cmp rtSd (NdArray b) ps) b = h b"
    unfolding findMatchedSubset_store using nb by (rule flooringEffect_nopos)
next
  assume "rtSd \<noteq> NdArray c \<and> mzSd \<noteq> NdArray c"
  then have 1: "rtSd \<noteq> NdArray c" and 2: "mzSd \<noteq> NdArray c" by blast+
  show "fst (matchFeatures pf h ref cmp rtSd mzSd ps) c = h c"
    unfolding matchFeatures_store by (rule flooringEffect_frame [OF 1 2])
  show "fst (findMatchedSubset pf h ref cmp rtSd mzSd ps) c = h c"
    unfolding findMatchedSubset_store by (rule flooringEffect_frame [OF 1 2])
qed

text \<open>
  The claim as it was stated fails when the flooring of \<open>rtSd\<close> raises: the \<open>mzSd\<close>
  array \<open>[3, 0]\<close> has a positive entry and a zero, and with \<open>rtSd = 0.0\<close> (ValueError at
  the flooring of \<open>rtSd\<close>) or \<open>rtSd\<close> a list (TypeError) the caller's array is still
  \<open>[3, 0]\<close> after the call.
\<close>

theorem flooring_in_place_counterexample:
  "ex_sd 1 = [3, 0] \<and>
   matchFeatures ex_pyfloat ex_sd [ex_r1] [ex_c1] (PyFloat 0) (NdArray 1) ex_params = (ex_sd, Inl ValueError) \<and>
   findMatchedSubset ex_pyfloat ex_sd [ex_r1] [ex_c1] (PyFloat 0) (NdArray 1) ex_params = (ex_sd, Inl ValueError) \<and>
   matchFeatures ex_pyfloat ex_sd [ex_r1] [ex_c1] (PyList [1]) (NdArray 1) ex_params = (ex_sd, Inl TypeError) \<and>
   findMatchedSubset ex_pyfloat ex_sd [ex_r1] [ex_c1] (PyList [1]) (NdArray 1) ex_params = (ex_sd, Inl TypeError)"
  by (simp add: matchFeatures_def matchEntries_def findMatchedSubset_def sort_values_def floorZeros_def ex_sd_def)

theorem flooring_in_place_witness:
  "(\<exists>x\<in>set (ex_sd 0). 0 < x) \<and> 0 \<in> set (ex_sd 0) \<and> (\<exists>x\<in>set (ex_sd 1). 0 < x) \<and> 0 \<in> set (ex_sd 1) \<and>
   fst (matchFeatures ex_pyfloat ex_sd [ex_r1] [ex_c1] (NdArray 0) (PyList [1]) ex_params) 0 = floored (ex_sd 0) \<and>
   fst (findMatchedSubset ex_pyfloat ex_sd [ex_r1] [ex_c1] (NdArray 0) (PyList [1]) ex_params) 0 = floored (ex_sd 0) \<and>
   floored (ex_sd 0) \<noteq> ex_sd 0 \<and>
   fst (matchFeatures ex_pyfloat ex_sd [ex_r1] [ex_c1] (NdArray 0) (NdArray 1) ex_params) 1 = floored (ex_sd 1) \<and>
   fst (findMatchedSubset ex_pyfloat ex_sd [ex_r1] [ex_c1] (NdArray 0) (NdArray 1) ex_params) 1 = floored (ex_sd 1) \<and>
   fst (matchFeatures ex_pyfloat ex_sd [ex_r1] [ex_c1] (PyFloat 1) (NdArray 1) ex_params) 1 = floored (ex_sd 1) \<and>
   floored (ex_sd 1) \<noteq> ex_sd 1 \<and>
   fst (matchFeatures ex_pyfloat ex_sd [ex_r1] [ex_c1] (NdArray 0) (NdArray 1) ex_params) 2 = ex_sd 2 \<and>
   \<not> (\<exists>x\<in>set ((ex_sd(2 := [0, 0])) 2). 0 < x) \<and>
   fst (matchFeatures ex_pyfloat (ex_sd(2 := [0, 0])) [ex_r1] [ex_c1] (NdArray 0) (NdArray 2) ex_params) 2 = [0, 0] \<and>
   (\<exists>e. matchFeatures ex_pyfloat ex_sd [ex_r1] [ex_c1] (PyFloat 0) (NdArray 1) ex_params = (ex_sd, Inl e)) \<and>
   (\<exists>e. findMatchedSubset ex_pyfloat ex_sd [ex_r1] [ex_c1] (PyFloat 0) (NdArray 1) ex_params = (ex_sd, Inl e))"
proof -
  have pa: "\<exists>x\<in>set (ex_sd 0). 0 < x" by (simp add: ex_sd_def)
  have pb: "\<exists>x\<in>set (ex_sd 1). 0 < x" by (simp add: ex_sd_def)
  have za: "0 \<in> set (ex_sd 0)" by (simp add: ex_sd_def)
  have zb: "0 \<in> set (ex_sd 1)" by (simp add: ex_sd_def)
  note t1 = flooring_in_place [of ex_sd 0 ex_pyfloat "[ex_r1]" "[ex_c1]" "PyList [1]" ex_params 1 "NdArray 0" 2]
  note t2 = flooring_in_place [of ex_sd 0 ex_pyfloat "[ex_r1]" "[ex_c1]" "NdArray 1" ex_params 1 "NdArray 0" 2]
  note t3 = flooring_in_place [of ex_sd 0 ex_pyfloat "[ex_r1]" "[ex_c1]" "NdArray 1" ex_params 1 "PyFloat 1" 2]
  note t4 = flooring_in_place [of ex_sd 0 ex_pyfloat "[ex_r1]" "[ex_c1]" "NdArray 1" ex_params 1 "PyFloat 0" 2]
  note t5 = flooring_in_place [of "ex_sd(2 := [0, 0])" 0 ex_pyfloat "[ex_r1]" "[ex_c1]" "NdArray 2" ex_params 2 "NdArray 0" 3]
  from t1 pa za have 1:
    "fst (matchFeatures ex_pyfloat ex_sd [ex_r1] [ex_c1] (NdArray 0) (PyList [1]) ex_params) 0 = floored (ex_sd 0)"
    "fst (findMatchedSubset ex_pyfloat ex_sd [ex_r1] [ex_c1] (NdArray 0) (PyList [1]) ex_params) 0 = floored (ex_sd 0)"
    "floored (ex_sd 0) \<noteq> ex_sd 0"
    by blast+
  from t2 pa pb zb have 2:
    "fst (matchFeatures ex_pyfloat ex_sd [ex_r1] [ex_c1] (NdArray 0) (NdArray 1) ex_params) 1 = floored (ex_sd 1)"
    "fst (findMatchedSubset ex_pyfloat ex_sd [ex_r1] [ex_c1] (NdArray 0) (NdArray 1) ex_params) 1 = floored (ex_sd 1)"
    "floored (ex_sd 1) \<noteq> ex_sd 1"
    "fst (matchFeatures ex_pyfloat ex_sd [ex_r1] [ex_c1] (NdArray 0) (NdArray 1) ex_params) 2 = ex_sd 2"
    by simp_all
  from t3 pb have 3:
    "fst (matchFeatures ex_pyfloat ex_sd [ex_r1] [ex_c1] (PyFloat 1) (NdArray 1) ex_params) 1 = floored (ex_sd 1)"
    by simp
  from t4 have 4:
    "\<exists>e. matchFeatures ex_pyfloat ex_sd [ex_r1] [ex_c1] (PyFloat 0) (NdArray 1) ex_params = (ex_sd, Inl e)"
    "\<exists>e. findMatchedSubset ex_pyfloat ex_sd [ex_r1] [ex_c1] (PyFloat 0) (NdArray 1) ex_params = (ex_sd, Inl e)"
    by simp_all
  have nc: "\<not> (\<exists>x\<in>set ((ex_sd(2 := [0, 0])) 2). 0 < x)" by simp
  from t5 nc have 5:
    "fst (matchFeatures ex_pyfloat (ex_sd(2 := [0, 0])) [ex_r1] [ex_c1] (NdArray 0) (NdArray 2) ex_params) 2 = [0, 0]"
    by simp
  from pa za pb zb 1 2 3 4 nc 5 show ?thesis by blast
qed

lemma ex_flooring_value:
  "fst (matchFeatures ex_pyfloat ex_sd [ex_r1] [ex_c1] (NdArray 0) (NdArray 1) ex_params) 0 = [1, 2, 1] \<and>
   fst (matchFeatures ex_pyfloat ex_sd [ex_r1] [ex_c1] (NdArray 0) (NdArray 1) ex_params) 1 = [3, 3]"
  by (simp add: matchFeatures_def matchEntries_def sort_values_def relabel_def floorZeros_def float_param_def
      matchRow_def inTol_def drop_label_def ex_defs ex_sd_def split: prod.splits sum.splits)


subsection \<open>globalCalibration on a reference table that runs out\<close>

lemma globalLoop_exhausted:
  assumes none: "\<forall>k<length ref. globalCandidates mzTol (ref ! k) pool = []" and j: "j \<le> nPeaks"
  shows "globalLoop mzTol ref nPeaks pool i j rts mzs = Inl KeyError"
proof (induction "length ref - i" arbitrary: i)
  case 0
  then have "\<not> i < length ref" by simp
  then show ?case using j by (subst globalLoop.simps) simp
next
  case (Suc n)
  then have i: "i < length ref" and n: "n = length ref - Suc i" by simp_all
  from none i have "globalCandidates mzTol (ref ! i) pool = []" by simp
  moreover have "globalLoop mzTol ref nPeaks pool (Suc i) j rts mzs = Inl KeyError"
    using Suc.hyps(1) [OF n] .
  ultimately show ?case using i j by (subst globalLoop.simps) simp
qed

lemma ex_no_candidates:
  assumes "k < 20"
  shows "globalCandidates 20 (map ex_row [0 ..< 20] ! k) [(0, ex_far)] = []"
proof -
  have "real k < 20" using assms by simp
  then have "100 + real k + (100 + real k) * 20 / 1000000 < 500" by (simp add: field_simps)
  moreover have "map ex_row [0 ..< 20] ! k = ex_row k" using assms by simp
  ultimately show ?thesis
    by (simp add: globalCandidates_def ex_row_def ex_far_def Let_def del: upt_Suc)
qed

text \<open>
  C3. The scan of globalCalibration always terminates (the recursion of \<open>globalLoop\<close>
  is well-founded: \<open>i\<close> grows in every round and is checked against the table), but
  it does not always return: with 20 reference features the quota is one match, and
  when no comparison feature lies in any m/z window the scan runs off the end of the
  reference table and raises KeyError.
\<close>

theorem globalCalibration_exhausted:
  "nPeaksOf (length (map ex_row [0 ..< 20])) = 1 \<and>
   globalCalibration L (map ex_row [0 ..< 20]) [(0, ex_far)] 20 = Inl KeyError"
proof -
  have n: "nPeaksOf (length (map ex_row [0 ..< 20])) = 1" by (simp add: nPeaksOf_def)
  have "\<forall>k<length (map ex_row [0 ..< 20]). globalCandidates 20 (map ex_row [0 ..< 20] ! k) [(0, ex_far)] = []"
    using ex_no_candidates by simp
  from globalLoop_exhausted [OF this, of 1 1 0 "[]" "[]"]
  have "globalLoop 20 (map ex_row [0 ..< 20]) 1 [(0, ex_far)] 0 1 [] [] = Inl KeyError" by simp
  then have "globalCalibration L (map ex_row [0 ..< 20]) [(0, ex_far)] 20 = Inl KeyError"
    unfolding globalCalibration_def n by (simp add: bindE_def)
  with n show ?thesis by simp
qed


subsection \<open>localCalibration when all shifts are identical\<close>

lemma bindH_ret [simp]: "bindH (ret x) f = f x"
  by (rule ext) (simp add: bindH_def ret_def)

lemma bindH_raise [simp]: "bindH (raise e) f s = (s, Inl e)"
  by (simp add: bindH_def raise_def)

lemma bindH_lift_Inl [simp]: "bindH (lift (Inl e)) f s = (s, Inl e)"
  by (simp add: bindH_def lift_def)

lemma bindH_lift_Inr [simp]: "bindH (lift (Inr x)) f = f x"
  by (rule ext) (simp add: bindH_def lift_def)

lemma bindH_Inl: "m s = (s1, Inl e) \<Longrightarrow> bindH m f s = (s1, Inl e)"
  by (simp add: bindH_def)

lemma bindH_Inr: "m s = (s1, Inr x) \<Longrightarrow> bindH m f s = f x s1"
  by (simp add: bindH_def)


lemma rLoess_Scalar:
  "rLoess L xs (Scalar v) s = (s, Inl (if scalar_vector L then RRuntimeError else TypeError))"
  by (simp add: rLoess_def lift_def loess_as_def)

lemma localCalibration_degenerate_RT:
  assumes sub: "findMatchedSubset (pyfloat L) (cells s) ref cmp rtSd mzSd ps = (h, Inr sub)"
    and ne: "sub \<noteq> []" and eq: "map refRt sub = map compRt sub"
  shows "snd (localCalibration L ref cmp rtSd mzSd ps ''RT'' s)
           = Inl (if scalar_vector L then RRuntimeError else TypeError)"
proof -
  let ?s1 = "s\<lparr>cells := h\<rparr>"
  let ?s2 = "?s1\<lparr>draws := Suc (draws ?s1)\<rparr>"
  have 1: "on_cells (\<lambda>h. findMatchedSubset (pyfloat L) h ref cmp rtSd mzSd ps) s = (?s1, Inr sub)"
    using sub by (simp add: on_cells_def)
  define v where "v = 1 / 1000000 * np_normal L (draws ?s1) (real (length (map refRt sub)))"
  have 2: "rtShiftsOf L (map refRt sub) (map compRt sub) ?s1 = (?s2, Inr (Scalar v))"
    unfolding v_def rtShiftsOf_def jitter_def using eq by simp
  note 3 = rLoess_Scalar [of L "map compRt sub" v]
  have "localCalibration L ref cmp rtSd mzSd ps ''RT'' s = (?s2, Inl (if scalar_vector L then RRuntimeError else TypeError))"
    unfolding localCalibration_def
    by (simp add: bindH_def 1 2 3 ne Let_def)
  then show ?thesis by simp
qed

lemma localCalibration_degenerate_mz:
  assumes sub: "findMatchedSubset (pyfloat L) (cells s) ref cmp rtSd mzSd ps = (h, Inr sub)"
    and ne: "sub \<noteq> []" and eq: "map refMz sub = map compMz sub"
  shows "snd (localCalibration L ref cmp rtSd mzSd ps ''mz'' s)
           = Inl (if scalar_vector L then RRuntimeError else TypeError)"
proof -
  let ?s1 = "s\<lparr>cells := h\<rparr>"
  let ?s2 = "?s1\<lparr>draws := Suc (draws ?s1)\<rparr>"
  have 1: "on_cells (\<lambda>h. findMatchedSubset (pyfloat L) h ref cmp rtSd mzSd ps) s = (?s1, Inr sub)"
    using sub by (simp add: on_cells_def)
  define v where "v = 1 / 1000000 * np_normal L (draws ?s1) (real (length (map refMz sub)))"
  have 2: "mzShiftsOf L (map refMz sub) (map compMz sub) ?s1 = (?s2, Inr (Scalar v))"
    unfolding v_def mzShiftsOf_def jitter_def using eq by simp
  note 3 = rLoess_Scalar [of L "map compMz sub" v]
  have "localCalibration L ref cmp rtSd mzSd ps ''mz'' s = (?s2, Inl (if scalar_vector L then RRuntimeError else TypeError))"
    unfolding localCalibration_def
    by (simp add: bindH_def 1 2 3 ne Let_def)
  then show ?thesis by simp
qed

lemma ex_findMatchedSubset:
  "findMatchedSubset ex_pyfloat h [ex_r1, ex_r2, ex_r3] [ex_r1, ex_r2, ex_r3] (PyFloat (1 / 1000)) (PyFloat (1 / 1000)) ex_params
     = (h, Inr ex_self)"
  by (simp add: findMatchedSubset_def sort_values_def relabel_def floorZeros_def float_param_def
      subsetRow_def inTol_def ex_defs ex_self_def upt_rec numeral_3_eq_3)

text \<open>
  C4. When the comparison table equals the reference table (three well separated
  features here), every matched pair has identical coordinates and localCalibration takes
  the jitter path. The jitter is one float, not one per matched feature, so the first
  LOESS call raises: the bridge rejects the bare float (TypeError), or, if it passes it
  on as a vector of length 1, \<open>loess.as\<close> stops (RRuntimeError). This holds for every
  behaviour of numpy, R and the random generator, on the RT pass and on the m/z pass.
\<close>

theorem localCalibration_jitter_raises:
  "snd (localCalibration (L\<lparr>pyfloat := ex_pyfloat\<rparr>) [ex_r1, ex_r2, ex_r3] [ex_r1, ex_r2, ex_r3]
          (PyFloat (1 / 1000)) (PyFloat (1 / 1000)) ex_params ''RT'' s)
     = Inl (if scalar_vector L then RRuntimeError else TypeError) \<and>
   snd (localCalibration (L\<lparr>pyfloat := ex_pyfloat\<rparr>) [ex_r1, ex_r2, ex_r3] [ex_r1, ex_r2, ex_r3]
          (PyFloat (1 / 1000)) (PyFloat (1 / 1000)) ex_params ''mz'' s)
     = Inl (if scalar_vector L then RRuntimeError else TypeError)"
proof -
  have f: "findMatchedSubset (pyfloat (L\<lparr>pyfloat := ex_pyfloat\<rparr>)) (cells s) [ex_r1, ex_r2, ex_r3] [ex_r1, ex_r2, ex_r3]
       (PyFloat (1 / 1000)) (PyFloat (1 / 1000)) ex_params = (cells s, Inr ex_self)"
    by (simp add: ex_findMatchedSubset)
  have ne: "ex_self \<noteq> []" by (simp add: ex_self_def)
  have rt: "map refRt ex_self = map compRt ex_self" by (simp add: ex_self_def)
  have mz: "map refMz ex_self = map compMz ex_self" by (simp add: ex_self_def)
  show ?thesis
    using localCalibration_degenerate_RT [OF f ne rt] localCalibration_degenerate_mz [OF f ne mz]
    by simp
qed


subsection \<open>The four passes of calibrateFeatures\<close>

























subsection \<open>rescueFeatures with an unknown tolerance unit\<close>

text \<open>
  C9, as the code has it. When rescueFeatures gets as far as the unit test (its criteria
  were computed without an exception) and the RT tolerance unit is neither "1" nor "2",
  or the RT tolerance is in order and the m/z tolerance unit is neither "1" nor "2", it
  prints the warning and the notice that the rescue step is skipped, and returns the
  index lists it was given: the rescue is skipped, the program goes on.
\<close>

theorem rescueFeatures_bad_unit:
  assumes crit: "rescueCriteria L ref cmp refInd compInd rtSd mzSd = Inr E"
    and unit: "(rtTolUnit \<noteq> ''1'' \<and> rtTolUnit \<noteq> ''2'') \<or>
               (pyfloat L rtTol \<noteq> None \<and> mzTolUnit \<noteq> ''1'' \<and> mzTolUnit \<noteq> ''2'')"
  shows "snd (rescueFeatures L ref cmp refInd compInd rtSd mzSd rtTolUnit rtTol mzTolUnit mzTol)
           = Inr (refInd, compInd) \<and>
         (\<exists>pre. fst (rescueFeatures L ref cmp refInd compInd rtSd mzSd rtTolUnit rtTol mzTolUnit mzTol)
           = pre @ [WarnToleranceUnit, RescueSkipped])"
proof (cases "rtTolUnit = ''1'' \<or> rtTolUnit = ''2''")
  case False
  then show ?thesis
    by (simp add: rescueFeatures_def crit Let_def)
next
  case True
  with unit obtain rt where rt: "pyfloat L rtTol = Some rt" and mz: "\<not> (mzTolUnit = ''1'' \<or> mzTolUnit = ''2'')"
    by auto
  have "rescueFeatures L ref cmp refInd compInd rtSd mzSd rtTolUnit rtTol mzTolUnit mzTol
          = ([Unaligned (int (length cmp) - int (length compInd)), IntensityCriterion (intLevel E),
              RatioCriterion 95, if rtTolUnit = ''1'' then RtWithinSd rtTol else RtWithinSeconds rtTol]
               @ [WarnToleranceUnit, RescueSkipped], Inr (refInd, compInd))"
    using True mz by (simp add: rescueFeatures_def crit rt Let_def)
  then show ?thesis by (metis fst_conv snd_conv)
qed

lemma ex_rescueCriteria:
  "rescueCriteria ex_lib [ex_r1, ex_r2, ex_r3] [ex_c1, ex_c2, ex_c3] [0] [0] [1, 1, 1] [1, 1, 1]
     = Inr \<lparr>uRefInd = [1, 2], uRtSd = [1, 1], uMzSd = [1, 1], uRef = [ex_r2, ex_r3],
             uCompInd = [1, 2], uComp = [ex_c2, ex_c3], intLevel = 0, lRatio = - 1000, uRatio = 1000\<rparr>"
  by (simp add: rescueCriteria_def take_rows_def setdiff_range_def log_ratios_def bindE_def ex_lib_def
      numeral_3_eq_3)

theorem rescueFeatures_bad_unit_counterexample:
  "rescueFeatures ex_lib [ex_r1, ex_r2, ex_r3] [ex_c1, ex_c2, ex_c3] [0] [0] [1, 1, 1] [1, 1, 1] ''3'' ''10'' ''1'' ''10''
     = ([Unaligned 2, IntensityCriterion 0, RatioCriterion 95, WarnToleranceUnit, RescueSkipped], Inr ([0], [0])) \<and>
   rescueFeatures ex_lib [ex_r1, ex_r2, ex_r3] [ex_c1, ex_c2, ex_c3] [0] [0] [1, 1, 1] [1, 1, 1] ''1'' ''10'' ''0'' ''10''
     = ([Unaligned 2, IntensityCriterion 0, RatioCriterion 95, RtWithinSd ''10'', WarnToleranceUnit, RescueSkipped],
        Inr ([0], [0]))"
proof -
  have pf: "pyfloat ex_lib ''10'' = Some 10" by (simp add: ex_lib_def ex_pyfloat_def)
  show ?thesis by (simp add: rescueFeatures_def ex_rescueCriteria Let_def pf)
qed

theorem rescueFeatures_bad_unit_witness:
  "rescueCriteria ex_lib [ex_r1, ex_r2, ex_r3] [ex_c1, ex_c2, ex_c3] [0] [0] [1, 1, 1] [1, 1, 1]
     = Inr \<lparr>uRefInd = [1, 2], uRtSd = [1, 1], uMzSd = [1, 1], uRef = [ex_r2, ex_r3],
             uCompInd = [1, 2], uComp = [ex_c2, ex_c3], intLevel = 0, lRatio = - 1000, uRatio = 1000\<rparr> \<and>
   ''3'' \<noteq> ''1'' \<and> ''3'' \<noteq> ''2'' \<and>
   snd (rescueFeatures ex_lib [ex_r1, ex_r2, ex_r3] [ex_c1, ex_c2, ex_c3] [0] [0] [1, 1, 1] [1, 1, 1] ''3'' ''10'' ''1'' ''10'')
     = Inr ([0], [0]) \<and>
   (\<exists>pre. fst (rescueFeatures ex_lib [ex_r1, ex_r2, ex_r3] [ex_c1, ex_c2, ex_c3] [0] [0] [1, 1, 1] [1, 1, 1] ''3'' ''10'' ''1'' ''10'')
     = pre @ [WarnToleranceUnit, RescueSkipped]) \<and>
   pyfloat ex_lib ''10'' \<noteq> None \<and> ''0'' \<noteq> ''1'' \<and> ''0'' \<noteq> ''2'' \<and>
   snd (rescueFeatures ex_lib [ex_r1, ex_r2, ex_r3] [ex_c1, ex_c2, ex_c3] [0] [0] [1, 1, 1] [1, 1, 1] ''1'' ''10'' ''0'' ''10'')
     = Inr ([0], [0]) \<and>
   (\<exists>pre. fst (rescueFeatures ex_lib [ex_r1, ex_r2, ex_r3] [ex_c1, ex_c2, ex_c3] [0] [0] [1, 1, 1] [1, 1, 1] ''1'' ''10'' ''0'' ''10'')
     = pre @ [WarnToleranceUnit, RescueSkipped])"
proof -
  have u1: "(''3'' \<noteq> ''1'' \<and> ''3'' \<noteq> ''2'') \<or> (pyfloat ex_lib ''10'' \<noteq> None \<and> ''1'' \<noteq> ''1'' \<and> ''1'' \<noteq> ''2'')"
    by simp
  have pf: "pyfloat ex_lib ''10'' \<noteq> None" by (simp add: ex_lib_def ex_pyfloat_def)
  then have u2: "(''1'' \<noteq> ''1'' \<and> ''1'' \<noteq> ''2'') \<or> (pyfloat ex_lib ''10'' \<noteq> None \<and> ''0'' \<noteq> ''1'' \<and> ''0'' \<noteq> ''2'')"
    by simp
  note t1 = rescueFeatures_bad_unit [OF ex_rescueCriteria u1, of "''10''"]
  note t2 = rescueFeatures_bad_unit [OF ex_rescueCriteria u2, of "''10''"]
  have s: "''3'' \<noteq> ''1''" "''3'' \<noteq> ''2''" "''0'' \<noteq> ''1''" "''0'' \<noteq> ''2''" by simp_all
  from ex_rescueCriteria s pf t1 t2 show ?thesis by blast
qed


subsection \<open>alignFeatures: promotion of partially-aligned rows\<close>

















subsection \<open>calibrateFeatures on identical tables\<close>

lemma ex_row_fields:
  "mz (ex_row k) = 100 + real k" "RT (ex_row k) = 60 * real k" "z (ex_row k) = 1"
  "intensity (ex_row k) = 1000 - real k"
  by (simp_all add: ex_row_def)

lemma sort_ex_table: "sort_values ex_table = ex_table"
  unfolding sort_values_def
proof (rule sort_key_id_if_sorted)
  have "map (\<lambda>f. - intensity f) ex_table = map (\<lambda>k. real k - 1000) [0 ..< 30]"
    by (simp add: ex_table_def ex_row_def comp_def)
  moreover have "sorted (map (\<lambda>k. real k - 1000) [0 ..< 30])"
    by (simp add: sorted_map sorted_wrt_iff_nth_less)
  ultimately show "sorted (map (\<lambda>f. - intensity f) ex_table)" by simp
qed

lemma relabel_ex_table: "relabel ex_table = map (\<lambda>k. (k, ex_row k)) [0 ..< 30]"
  unfolding relabel_def ex_table_def
  by (rule nth_equalityI) simp_all

lemma filter_eq_single:
  "distinct ks \<Longrightarrow> i \<in> set ks \<Longrightarrow> filter (\<lambda>k. k = i) ks = [i]"
  by (induction ks) (auto simp: filter_empty_conv)

lemma drop_label_ex:
  "drop_label l (map (\<lambda>k. (k, ex_row k)) ks) = map (\<lambda>k. (k, ex_row k)) (filter (\<lambda>k. k \<noteq> l) ks)"
  by (simp add: drop_label_def filter_map comp_def)

lemma ex_window:
  assumes "i < 30"
  shows "((100 + real i) - (100 + real i) * 20 / 1000000 \<le> 100 + real k \<and>
          100 + real k < (100 + real i) + (100 + real i) * 20 / 1000000) \<longleftrightarrow> k = i"
proof
  assume w: "(100 + real i) - (100 + real i) * 20 / 1000000 \<le> 100 + real k \<and>
          100 + real k < (100 + real i) + (100 + real i) * 20 / 1000000"
  have "real i < 30" using assms by simp
  then have b: "(100 + real i) * 20 / 1000000 < 1" by simp
  from w b have "real i - 1 < real k \<and> real k < real i + 1" by linarith
  then have "int i - 1 < int k \<and> int k < int i + 1" by linarith
  then show "k = i" by linarith
next
  assume "k = i"
  then show "(100 + real i) - (100 + real i) * 20 / 1000000 \<le> 100 + real k \<and>
          100 + real k < (100 + real i) + (100 + real i) * 20 / 1000000"
    by simp
qed

lemma ex_globalCandidates:
  assumes "i < 30"
  shows "globalCandidates 20 (ex_row i) (map (\<lambda>k. (k, ex_row k)) ks)
           = map (\<lambda>k. (k, ex_row k)) (filter (\<lambda>k. k = i) ks)"
proof -
  have zr: "(z (ex_row i) = 0) = False" by (simp add: ex_row_def)
  have "globalCandidates 20 (ex_row i) (map (\<lambda>k. (k, ex_row k)) ks)
      = filter (\<lambda>(l, c). mz (ex_row i) - mz (ex_row i) * 20 / 1000000 \<le> mz c \<and>
                          mz c < mz (ex_row i) + mz (ex_row i) * 20 / 1000000 \<and> z c = z (ex_row i))
          (map (\<lambda>k. (k, ex_row k)) ks)"
    unfolding globalCandidates_def Let_def by (simp only: zr if_False)
  also have "\<dots> = map (\<lambda>k. (k, ex_row k))
       (filter (\<lambda>k. mz (ex_row i) - mz (ex_row i) * 20 / 1000000 \<le> mz (ex_row k) \<and>
                     mz (ex_row k) < mz (ex_row i) + mz (ex_row i) * 20 / 1000000 \<and>
                     z (ex_row k) = z (ex_row i)) ks)"
    by (simp only: filter_map comp_def split_conv)
  also have "filter (\<lambda>k. mz (ex_row i) - mz (ex_row i) * 20 / 1000000 \<le> mz (ex_row k) \<and>
                     mz (ex_row k) < mz (ex_row i) + mz (ex_row i) * 20 / 1000000 \<and>
                     z (ex_row k) = z (ex_row i)) ks = filter (\<lambda>k. k = i) ks"
  proof (rule filter_cong [OF refl])
    fix k
    from ex_window [OF assms, of k]
    show "(mz (ex_row i) - mz (ex_row i) * 20 / 1000000 \<le> mz (ex_row k) \<and>
           mz (ex_row k) < mz (ex_row i) + mz (ex_row i) * 20 / 1000000 \<and>
           z (ex_row k) = z (ex_row i)) = (k = i)"
      unfolding ex_row_fields by blast
  qed
  finally show ?thesis .
qed

lemma ex_globalLoop_2:
  assumes "distinct ks" and "Suc 0 \<in> set ks"
  shows "globalLoop 20 ex_table 2 (map (\<lambda>k. (k, ex_row k)) ks) (Suc 0) (Suc (Suc 0)) [0] [0]
           = Inr ([0, 0], [0, 0])"
proof -
  have n: "length ex_table = 30" by (simp add: ex_table_def)
  have r1: "ex_table ! Suc 0 = ex_row (Suc 0)" by (simp add: ex_table_def)
  have "filter (\<lambda>k. k = Suc 0) ks = [Suc 0]" using assms by (rule filter_eq_single)
  then have c1: "globalCandidates 20 (ex_row (Suc 0)) (map (\<lambda>k. (k, ex_row k)) ks) = [(Suc 0, ex_row (Suc 0))]"
    by (simp add: ex_globalCandidates)
  have s3: "\<And>pool. globalLoop 20 ex_table 2 pool (Suc (Suc 0)) (Suc (Suc (Suc 0))) [0, 0] [0, 0]
              = Inr ([0, 0], [0, 0])"
    by (subst globalLoop.simps) (simp del: globalLoop.simps)
  show ?thesis
    by (subst globalLoop.simps) (simp add: n r1 c1 s3 del: globalLoop.simps)
qed

lemma ex_globalLoop:
  "globalLoop 20 ex_table 2 (relabel ex_table) 0 1 [] [] = Inr ([0, 0], [0, 0])"
proof -
  have n: "length ex_table = 30" by (simp add: ex_table_def)
  have r0: "ex_table ! 0 = ex_row 0" by (simp add: ex_table_def)
  have "filter (\<lambda>k. k = 0) [0 ..< 30] = [0::nat]" by (rule filter_eq_single) simp_all
  then have c0: "globalCandidates 20 (ex_row 0) (map (\<lambda>k. (k, ex_row k)) [0 ..< 30]) = [(0, ex_row 0)]"
    by (simp add: ex_globalCandidates)
  have s2: "globalLoop 20 ex_table 2 (drop_label 0 (map (\<lambda>k. (k, ex_row k)) [0 ..< 30]))
              (Suc 0) (Suc (Suc 0)) [0] [0] = Inr ([0, 0], [0, 0])"
    unfolding drop_label_ex by (rule ex_globalLoop_2) simp_all
  show ?thesis
    by (subst globalLoop.simps) (simp add: n r0 c0 relabel_ex_table s2 del: upt_Suc globalLoop.simps)
qed

lemma ex_inTol:
  assumes "0 \<le> t" and "t < 60" and "0 \<le> u"
  shows "(inTol t u (ex_row i) (ex_row k) \<and> z (ex_row k) = z (ex_row i)) \<longleftrightarrow> k = i"
proof
  assume "inTol t u (ex_row i) (ex_row k) \<and> z (ex_row k) = z (ex_row i)"
  then have "\<bar>60 * real k - 60 * real i\<bar> \<le> t" by (simp add: inTol_def ex_row_fields)
  with assms have "real i - 1 < real k \<and> real k < real i + 1" by linarith
  then have "int i - 1 < int k \<and> int k < int i + 1" by linarith
  then show "k = i" by linarith
next
  assume "k = i"
  then show "inTol t u (ex_row i) (ex_row k) \<and> z (ex_row k) = z (ex_row i)"
    using assms by (simp add: inTol_def ex_row_fields)
qed

lemma ex_subsetRow:
  assumes "i < 30" and "0 \<le> t" and "t < 60" and "0 \<le> u"
  shows "subsetRow t u (ex_row i) (map (\<lambda>k. (k, ex_row k)) [0 ..< 30]) = Some (i, ex_row i)"
proof -
  have zr: "(z (ex_row i) = 0) = False" by (simp add: ex_row_def)
  have "filter (\<lambda>(l, c). inTol t u (ex_row i) c \<and> z c = z (ex_row i)) (map (\<lambda>k. (k, ex_row k)) [0 ..< 30])
      = map (\<lambda>k. (k, ex_row k)) (filter (\<lambda>k. inTol t u (ex_row i) (ex_row k) \<and> z (ex_row k) = z (ex_row i)) [0 ..< 30])"
    by (simp only: filter_map comp_def split_conv)
  also have "filter (\<lambda>k. inTol t u (ex_row i) (ex_row k) \<and> z (ex_row k) = z (ex_row i)) [0 ..< 30]
      = filter (\<lambda>k. k = i) [0 ..< 30]"
    by (rule filter_cong [OF refl]) (rule ex_inTol [OF assms(2-4)])
  also have "filter (\<lambda>k. k = i) [0 ..< 30] = [i]"
    by (rule filter_eq_single) (use assms(1) in simp_all)
  finally have f: "filter (\<lambda>(l, c). inTol t u (ex_row i) c \<and> z c = z (ex_row i)) (map (\<lambda>k. (k, ex_row k)) [0 ..< 30])
      = [(i, ex_row i)]" by simp
  show ?thesis unfolding subsetRow_def by (simp only: zr if_False f list.case)
qed

lemma ex_subsetLoop:
  assumes "i \<le> 30"
  shows "subsetLoop (replicate 30 (1 / 100)) (replicate 30 (1 / 100)) (map (\<lambda>k. (k, ex_row k)) [0 ..< 30]) i
           (map ex_row [i ..< 30]) = Inr (map (\<lambda>k. self_row (ex_row k)) [i ..< 30])"
  using assms
proof (induction "30 - i" arbitrary: i)
  case 0
  then show ?case by simp
next
  case (Suc n)
  then have i: "i < 30" and n: "n = 30 - Suc i" by simp_all
  have u: "[i ..< 30] = i # [Suc i ..< 30]" using i by (simp add: upt_conv_Cons)
  have ih: "subsetLoop (replicate 30 (1 / 100)) (replicate 30 (1 / 100)) (map (\<lambda>k. (k, ex_row k)) [0 ..< 30]) (Suc i)
           (map ex_row [Suc i ..< 30]) = Inr (map (\<lambda>k. self_row (ex_row k)) [Suc i ..< 30])"
    using Suc.hyps(1) [OF n] i by simp
  have r: "subsetRow (1 / 100) (1 / 100) (ex_row i) (map (\<lambda>k. (k, ex_row k)) [0 ..< 30]) = Some (i, ex_row i)"
    using i by (rule ex_subsetRow) simp_all
  show ?case
    unfolding u using i by (simp add: ih r self_row_def del: upt_Suc)
qed

lemma floorZeros_replicate:
  assumes "0 < v" and "0 < n"
  shows "floorZeros (replicate n v) = Inr (replicate n v)"
proof -
  have "\<exists>x\<in>set (replicate n v). 0 < x" using assms by simp
  from floorZeros_Inr [OF this] show ?thesis using assms by (simp add: map_replicate)
qed

lemma ex_findMatchedSubset_table:
  assumes "pf ''10'' = Some 10"
  shows "findMatchedSubset pf h ex_table ex_table (PyFloat (1 / 1000)) (PyFloat (1 / 1000)) ex_params
           = (h, Inr (map self_row ex_table))"
proof -
  have n: "length ex_table = 30" by (simp add: ex_table_def)
  have fz: "floorZeros (replicate 30 (1 / 1000)) = Inr (replicate 30 (1 / 1000))"
    by (rule floorZeros_replicate) simp_all
  have fp: "float_param pf ex_params ''sd_width'' = Inr 10"
    using assms by (simp add: float_param_def ex_params_def)
  have loop: "subsetLoop (replicate 30 (1 / 100)) (replicate 30 (1 / 100)) (map (\<lambda>k. (k, ex_row k)) [0 ..< 30]) 0
           ex_table = Inr (map self_row ex_table)"
    using ex_subsetLoop [of 0] by (simp add: ex_table_def comp_def)
  show ?thesis
    unfolding findMatchedSubset_def Let_def sort_ex_table relabel_ex_table n
    by (simp add: fz fp loop)
qed

lemma ex_calibrationStart:
  assumes pi1: "pyint L ''20'' = Some 20" and pi2: "pyint L ''10'' = Some 10"
    and pc10: "np_percentile L [0, 0] 10 = Inr 0" and pc90: "np_percentile L [0, 0] 90 = Inr 0"
    and med: "np_median L [0, 0] = 0" and std: "np_std L [0, 0] = 0"
  shows "calibrationStart L ex_params ex_table ex_table s
           = (s, Inr (ex_table, ex_table, PyFloat (1 / 1000), PyFloat (1 / 1000)))"
proof -
  have t: "int_param (pyint L) ex_params ''tol_initial'' = Inr 20"
    using pi1 by (simp add: int_param_def ex_params_def)
  have w: "int_param (pyint L) ex_params ''sd_width'' = Inr 10"
    using pi2 by (simp add: int_param_def ex_params_def)
  have np: "nPeaksOf (length ex_table) = 2" by (simp add: ex_table_def nPeaksOf_def)
  have tr: "trimmed L [0, 0] = Inr [0, 0]" by (simp add: trimmed_def bindE_def pc10 pc90)
  have g: "globalCalibration L ex_table (relabel ex_table) 20 = Inr ([0, 0], [0, 0])"
    unfolding globalCalibration_def np ex_globalLoop by (simp add: bindE_def tr)
  have same: "map (\<lambda>c. c\<lparr>RT := RT c - 0, mz := mz c / (1 + 0 / 1000000)\<rparr>) ex_table = ex_table"
    by (rule map_idI) simp
  show ?thesis
    unfolding calibrationStart_def sort_ex_table
    by (simp add: t w g med std same ret_def)
qed

text \<open>
  C7. The comparison table is the reference table: 30 features, one m/z unit and 60 s
  apart, so that every feature can only be matched with itself. The library is any that
  agrees with numpy on the sample \<open>[0, 0]\<close> (percentiles, median and standard deviation
  are 0) and reads the parameters "20" and "10". Then the shift samples of the global
  calibration are exactly zero, and calibrateFeatures does not return the unchanged table:
  its first local pass finds all matched coordinates identical, takes the jitter path and
  raises at the LOESS call.
\<close>

theorem calibrateFeatures_identical_raises:
  assumes pi1: "pyint L ''20'' = Some 20" and pi2: "pyint L ''10'' = Some 10"
    and pf: "pyfloat L ''10'' = Some 10"
    and pc10: "np_percentile L [0, 0] 10 = Inr 0" and pc90: "np_percentile L [0, 0] 90 = Inr 0"
    and med: "np_median L [0, 0] = 0" and std: "np_std L [0, 0] = 0"
  shows "globalCalibration L (sort_values ex_table) (relabel (sort_values ex_table)) 20 = Inr ([0, 0], [0, 0]) \<and>
         snd (calibrateFeatures L ex_params ex_table ex_table s)
           = Inl (if scalar_vector L then RRuntimeError else TypeError)"
proof
  have np: "nPeaksOf (length ex_table) = 2" by (simp add: ex_table_def nPeaksOf_def)
  have tr: "trimmed L [0, 0] = Inr [0, 0]" by (simp add: trimmed_def bindE_def pc10 pc90)
  show "globalCalibration L (sort_values ex_table) (relabel (sort_values ex_table)) 20 = Inr ([0, 0], [0, 0])"
    unfolding sort_ex_table globalCalibration_def np ex_globalLoop by (simp add: bindE_def tr)
next
  note st = ex_calibrationStart [OF pi1 pi2 pc10 pc90 med std, of s]
  have f: "findMatchedSubset (pyfloat L) (cells s) ex_table ex_table (PyFloat (1 / 1000)) (PyFloat (1 / 1000)) ex_params
             = (cells s, Inr (map self_row ex_table))"
    using pf by (rule ex_findMatchedSubset_table)
  have ne: "map self_row ex_table \<noteq> []" by (simp add: ex_table_def)
  have eq: "map refRt (map self_row ex_table) = map compRt (map self_row ex_table)"
    by (simp add: self_row_def)
  note lc = localCalibration_degenerate_RT [OF f ne eq]
  obtain s1 where s1: "localCalibration L ex_table ex_table (PyFloat (1 / 1000)) (PyFloat (1 / 1000)) ex_params ''RT'' s
      = (s1, Inl (if scalar_vector L then RRuntimeError else TypeError))"
    using lc by (cases "localCalibration L ex_table ex_table (PyFloat (1 / 1000)) (PyFloat (1 / 1000)) ex_params ''RT'' s") simp
  show "snd (calibrateFeatures L ex_params ex_table ex_table s)
           = Inl (if scalar_vector L then RRuntimeError else TypeError)"
    unfolding calibrateFeatures_def by (simp add: bindH_def st s1)
qed

theorem calibrateFeatures_identical_raises_witness:
  "pyint (ex_lib\<lparr>np_percentile := \<lambda>xs q. Inr 0\<rparr>) ''20'' = Some 20 \<and>
   pyint (ex_lib\<lparr>np_percentile := \<lambda>xs q. Inr 0\<rparr>) ''10'' = Some 10 \<and>
   pyfloat (ex_lib\<lparr>np_percentile := \<lambda>xs q. Inr 0\<rparr>) ''10'' = Some 10 \<and>
   np_percentile (ex_lib\<lparr>np_percentile := \<lambda>xs q. Inr 0\<rparr>) [0, 0] 10 = Inr 0 \<and>
   np_percentile (ex_lib\<lparr>np_percentile := \<lambda>xs q. Inr 0\<rparr>) [0, 0] 90 = Inr 0 \<and>
   np_median (ex_lib\<lparr>np_percentile := \<lambda>xs q. Inr 0\<rparr>) [0, 0] = 0 \<and>
   np_std (ex_lib\<lparr>np_percentile := \<lambda>xs q. Inr 0\<rparr>) [0, 0] = 0 \<and>
   globalCalibration (ex_lib\<lparr>np_percentile := \<lambda>xs q. Inr 0\<rparr>) (sort_values ex_table)
       (relabel (sort_values ex_table)) 20 = Inr ([0, 0], [0, 0]) \<and>
   snd (calibrateFeatures (ex_lib\<lparr>np_percentile := \<lambda>xs q. Inr 0\<rparr>) ex_params ex_table ex_table ex_heap)
     = Inl TypeError"
proof -
  let ?L = "ex_lib\<lparr>np_percentile := \<lambda>xs q. Inr 0\<rparr>"
  have pi1: "pyint ?L ''20'' = Some 20" by (simp add: ex_lib_def ex_pyint_def)
  have pi2: "pyint ?L ''10'' = Some 10" by (simp add: ex_lib_def ex_pyint_def)
  have pf: "pyfloat ?L ''10'' = Some 10" by (simp add: ex_lib_def ex_pyfloat_def)
  have pc10: "np_percentile ?L [0, 0] 10 = Inr 0" by simp
  have pc90: "np_percentile ?L [0, 0] 90 = Inr 0" by simp
  have med: "np_median ?L [0, 0] = 0" by (simp add: ex_lib_def)
  have std: "np_std ?L [0, 0] = 0" by (simp add: ex_lib_def)
  have sv: "\<not> scalar_vector ?L" by (simp add: ex_lib_def)
  note t = calibrateFeatures_identical_raises [OF pi1 pi2 pf pc10 pc90 med std, of ex_heap]
  from t sv have c: "snd (calibrateFeatures ?L ex_params ex_table ex_table ex_heap) = Inl TypeError"
    by simp
  from t have g: "globalCalibration ?L (sort_values ex_table) (relabel (sort_values ex_table)) 20 = Inr ([0, 0], [0, 0])"
    by (rule conjunct1)
  from pi1 pi2 pf pc10 pc90 med std g c show ?thesis by blast
qed


end
